theory Spec2Isabelle
  imports Main "HOL-Library.Word"
begin

unbundle bit_operations_syntax

section \<open>Signal interception of the recorder (\<open>src/recorder/handle_signal.c\<close>)\<close>

text \<open>
  The recorder is an i386 program: it names the registers \<open>eax\<close>, \<open>edx\<close>, \<open>eip\<close> and
  \<open>esp\<close> of \<open>struct user_regs_struct\<close>, whose fields are 32-bit \<open>long int\<close>s.
  Registers and addresses are \<open>32 word\<close>; the \<open>unsigned long long\<close> of \<open>rdtsc\<close> is
  \<open>64 word\<close>. Signal numbers, event tags, wait statuses and counter readings are C
  \<open>int\<close>s that the code only compares, negates and ORs with one bit; they are \<open>int\<close>.
\<close>

subsection \<open>Data\<close>

type_synonym addr = "32 word"
type_synonym pid_t = int

text \<open>\<open>struct user_regs_struct\<close> of \<open>sys/user.h\<close> on i386, in its field order.\<close>

record user_regs_struct =
  ebx :: "32 word"
  ecx :: "32 word"
  edx :: "32 word"
  esi :: "32 word"
  edi :: "32 word"
  ebp :: "32 word"
  eax :: "32 word"
  xds :: "32 word"
  xes :: "32 word"
  xfs :: "32 word"
  xgs :: "32 word"
  orig_eax :: "32 word"
  eip :: "32 word"
  xcs :: "32 word"
  eflags :: "32 word"
  esp :: "32 word"
  xss :: "32 word"

text \<open>The fields of \<open>siginfo_t\<close> that the code reads.\<close>

record siginfo_t =
  si_signo :: int
  si_code :: int
  si_addr :: addr

text \<open>
  The fields of \<open>struct context\<close> that the code reads or writes. \<open>hpc\<close> is the pointer
  to the performance-counter handle; the counters themselves live outside the context.
\<close>

record "context" =
  child_tid :: pid_t
  status :: int
  event :: int
  child_sig :: int
  child_regs :: user_regs_struct
  hpc :: nat

text \<open>Signal numbers of \<open>signal.h\<close> on Linux/i386.\<close>

definition SIGILL :: int where "SIGILL = 4"
definition SIGTRAP :: int where "SIGTRAP = 5"
definition SIGBUS :: int where "SIGBUS = 7"
definition SIGFPE :: int where "SIGFPE = 8"
definition SIGSEGV :: int where "SIGSEGV = 11"
definition SIGSTKFLT :: int where "SIGSTKFLT = 16"
definition SIGIO :: int where "SIGIO = 29"

text \<open>A failed \<open>assert\<close> aborts the recorder.\<close>

datatype error = AssertionFailed

subsection \<open>The collaborators\<close>

text \<open>
  Modelled from the spec: the functions, macros and constants that
  \<open>handle_signal.c\<close> uses from \<open>share/*.h\<close> and \<open>recorder.h\<close>, which are not part of the
  file. They are parameters, collected in one record. \<open>'w\<close> is everything outside the
  context: the stopped tracee (registers, memory, pending fault info), the host's
  counters and the trace log. Following the spec's section on external interfaces, a
  collaborator that is handed the context reads it and acts on \<open>'w\<close>; the fields of the
  context are written by \<open>handle_signal.c\<close> only. Reading fault info, decoding an
  instruction, the protected-region test and the counter reads leave \<open>'w\<close> as it is.
  \<open>rdtsc_insn\<close> is the \<open>rdtsc\<close> machine instruction of the inline assembly: it yields
  \<open>(lo, hi)\<close> and the host after the read.
\<close>

record 'w env =
  signal_pending :: "int \<Rightarrow> int"
  get_inst :: "pid_t \<Rightarrow> int \<Rightarrow> 'w \<Rightarrow> string \<times> int"
  is_write_mem_instruction :: "pid_t \<Rightarrow> int \<Rightarrow> 'w \<Rightarrow> bool \<times> int"
  rdtsc_insn :: "'w \<Rightarrow> (32 word \<times> 32 word) \<times> 'w"
  read_child_registers :: "pid_t \<Rightarrow> 'w \<Rightarrow> user_regs_struct"
  write_child_registers :: "pid_t \<Rightarrow> user_regs_struct \<Rightarrow> 'w \<Rightarrow> 'w"
  sys_ptrace_getsiginfo :: "pid_t \<Rightarrow> 'w \<Rightarrow> siginfo_t"
  sys_ptrace_singlestep_sig :: "pid_t \<Rightarrow> int \<Rightarrow> 'w \<Rightarrow> 'w"
  sys_waitpid :: "pid_t \<Rightarrow> 'w \<Rightarrow> int \<times> 'w"
  is_protected_map :: "context \<Rightarrow> addr \<Rightarrow> 'w \<Rightarrow> bool"
  emulate_child_inst :: "context \<Rightarrow> int \<Rightarrow> 'w \<Rightarrow> 'w"
  record_event :: "context \<Rightarrow> int \<Rightarrow> 'w \<Rightarrow> 'w"
  record_child_data :: "context \<Rightarrow> int \<Rightarrow> nat \<Rightarrow> addr \<Rightarrow> 'w \<Rightarrow> 'w"
  reset_hpc :: "context \<Rightarrow> int \<Rightarrow> 'w \<Rightarrow> 'w"
  read_insts :: "nat \<Rightarrow> 'w \<Rightarrow> int"
  read_rbc :: "nat \<Rightarrow> 'w \<Rightarrow> int"
  WRAP_SYSCALLS_CALLSITE_IN_WRAPPER :: "32 word \<Rightarrow> context \<Rightarrow> bool"
  SIG_SEGV_RDTSC :: int
  SIG_SEGV_MMAP_READ :: int
  SIG_SEGV_MMAP_WRITE :: int
  USR_SCHED :: int
  DET_SIGNAL_BIT :: int
  MAX_RECORD_INTERVAL :: int
  STATE_SYSCALL_ENTRY :: int

subsection \<open>\<open>is_deterministic_signal\<close>\<close>

text \<open>
  The \<open>switch\<close> on \<open>si->si_signo\<close>: six \<open>case\<close> labels share one body, which returns
  the value of the C comparison \<open>si->si_code > 0\<close> (1 or 0); \<open>default\<close> returns 0.
\<close>

definition is_deterministic_signal :: "siginfo_t \<Rightarrow> int" where
  "is_deterministic_signal si =
     (if si_signo si = SIGILL \<or> si_signo si = SIGTRAP \<or> si_signo si = SIGBUS
         \<or> si_signo si = SIGFPE \<or> si_signo si = SIGSEGV \<or> si_signo si = SIGSTKFLT
      then (if si_code si > 0 then 1 else 0)
      else 0)"

subsection \<open>\<open>rdtsc\<close> and \<open>strncmp\<close>\<close>

text \<open>
  \<open>rdtsc\<close> runs the instruction once and joins the two halves:
  \<open>((unsigned long long) lo) | (((unsigned long long) hi) << 32)\<close>.
\<close>

definition rdtsc :: "'w env \<Rightarrow> 'w \<Rightarrow> 64 word \<times> 'w" where
  "rdtsc E w =
     (case rdtsc_insn E w of
        ((lo, hi), w') \<Rightarrow> ((ucast lo :: 64 word) OR push_bit 32 (ucast hi :: 64 word), w'))"

text \<open>
  \<open>strncmp\<close> of the C library. A C string is the list of its characters before the
  terminating NUL, so the end of a list reads as the character 0. At most \<open>n\<close>
  characters are compared; the result is the difference of the first two that differ.
\<close>

fun strncmp :: "string \<Rightarrow> string \<Rightarrow> nat \<Rightarrow> int" where
  "strncmp s1 s2 0 = 0"
| "strncmp [] [] (Suc n) = 0"
| "strncmp [] (c2 # s2) (Suc n) = - int (of_char c2)"
| "strncmp (c1 # s1) [] (Suc n) = int (of_char c1)"
| "strncmp (c1 # s1) (c2 # s2) (Suc n) =
     (if c1 = c2 then strncmp s1 s2 n else int (of_char c1) - int (of_char c2))"

subsection \<open>\<open>try_handle_rdtsc\<close>\<close>

text \<open>
  The result is \<open>Inl AssertionFailed\<close> when \<open>assert(sig != SIGTRAP)\<close> fails, and
  otherwise \<open>Inr (retval, ctx, w)\<close>: the returned \<open>int\<close>, the context and the world
  after the call. \<open>eax = current_time & 0xffffffff\<close> and \<open>edx = current_time >> 32\<close> are
  stored in 32-bit \<open>long int\<close>s; \<open>regs.eip += size\<close> is 32-bit addition. \<open>sys_free\<close> of
  the decoded text releases recorder memory only and is left out.
\<close>

definition try_handle_rdtsc :: "'w env \<Rightarrow> context \<Rightarrow> 'w \<Rightarrow> error + int \<times> context \<times> 'w" where
  "try_handle_rdtsc E ctx w =
     (let retval = 0;
          tid = child_tid ctx;
          sig = signal_pending E (status ctx)
      in if sig = SIGTRAP then Inl AssertionFailed
         else if sig \<le> 0 \<or> sig \<noteq> SIGSEGV then Inr (retval, ctx, w)
         else
           (case get_inst E tid 0 w of (inst, sz) \<Rightarrow>
              if strncmp inst ''rdtsc'' 5 = 0 then
                (case rdtsc E w of (current_time, w1) \<Rightarrow>
                   let eax' = (ucast (current_time AND 0xffffffff) :: 32 word);
                       edx' = (ucast (drop_bit 32 current_time) :: 32 word);
                       regs = read_child_registers E tid w1;
                       regs' = regs\<lparr>eax := eax', edx := edx',
                                     eip := eip regs + word_of_int sz\<rparr>;
                       w2 = write_child_registers E tid regs' w1
                   in Inr (1, ctx\<lparr>event := SIG_SEGV_RDTSC E\<rparr>, w2))
              else Inr (retval, ctx, w)))"

subsection \<open>\<open>try_handle_shared_mmap_access\<close>\<close>

text \<open>
  Same result type. The event is written to the context first; \<open>emulate_child_inst\<close>
  is then called with that context. The function returns \<open>ctx->event\<close>.
\<close>

definition try_handle_shared_mmap_access ::
  "'w env \<Rightarrow> context \<Rightarrow> 'w \<Rightarrow> error + int \<times> context \<times> 'w" where
  "try_handle_shared_mmap_access E ctx w =
     (let tid = child_tid ctx;
          sig = signal_pending E (status ctx)
      in if sig = SIGTRAP then Inl AssertionFailed
         else if sig \<le> 0 \<or> sig \<noteq> SIGSEGV then Inr (0, ctx, w)
         else
           let si = sys_ptrace_getsiginfo E (child_tid ctx) w;
               addr = si_addr si
           in if \<not> is_protected_map E ctx addr w then Inr (0, ctx, w)
              else
                (case is_write_mem_instruction E tid 0 w of (is_write, sz) \<Rightarrow>
                   let ctx' = ctx\<lparr>event := (if is_write then SIG_SEGV_MMAP_WRITE E
                                                else SIG_SEGV_MMAP_READ E)\<rparr>;
                       w' = emulate_child_inst E ctx' 0 w
                   in Inr (event ctx', ctx', w')))"

subsection \<open>\<open>record_signal\<close>\<close>

text \<open>
  \<open>Inl AssertionFailed\<close> when \<open>assert(read_insts(ctx->hpc) == 0)\<close> fails after the
  reset; otherwise the context and the world after the call. \<open>sys_waitpid\<close> stores the
  wait status into \<open>ctx->status\<close>.
\<close>

definition record_signal :: "'w env \<Rightarrow> int \<Rightarrow> context \<Rightarrow> 'w \<Rightarrow> error + context \<times> 'w" where
  "record_signal E sig ctx w =
     (if sig \<le> 0 then Inr (ctx, w)
      else
        let ctx1 = ctx\<lparr>child_sig := sig\<rparr>;
            si = sys_ptrace_getsiginfo E (child_tid ctx1) w;
            ctx2 = (if is_deterministic_signal si \<noteq> 0
                    then ctx1\<lparr>event := - (sig OR DET_SIGNAL_BIT E)\<rparr>
                    else ctx1\<lparr>event := - sig\<rparr>);
            w1 = record_event E ctx2 (STATE_SYSCALL_ENTRY E) w;
            w2 = reset_hpc E ctx2 (MAX_RECORD_INTERVAL E) w1
        in if read_insts E (hpc ctx2) w2 \<noteq> 0 then Inl AssertionFailed
           else
             let w3 = sys_ptrace_singlestep_sig E (child_tid ctx2) sig w2 in
             (case sys_waitpid E (child_tid ctx2) w3 of (st, w4) \<Rightarrow>
                let ctx3 = ctx2\<lparr>status := st\<rparr>;
                    insts = read_insts E (hpc ctx3) w4;
                    frame_size = (if insts = 0 then 1024 else 0);
                    regs = read_child_registers E (child_tid ctx3) w4
                in Inr (ctx3, record_child_data E ctx3 (event ctx3) frame_size (esp regs) w4)))"

subsection \<open>\<open>handle_signal\<close>\<close>

text \<open>
  One pass through the body of the \<open>while\<close> loop: single-step with signal 0, wait
  (the status goes to \<open>ctx->status\<close>), read the registers into \<open>ctx->child_regs\<close>.
  \<open>debug\<close> and \<open>log_info\<close> only print and are left out.
\<close>

definition handle_signal_loop_body :: "'w env \<Rightarrow> context \<times> 'w \<Rightarrow> context \<times> 'w" where
  "handle_signal_loop_body E s =
     (case s of (ctx, w) \<Rightarrow>
        let w1 = sys_ptrace_singlestep_sig E (child_tid ctx) 0 w in
        (case sys_waitpid E (child_tid ctx) w1 of (st, w2) \<Rightarrow>
           let ctx1 = ctx\<lparr>status := st\<rparr>;
               ctx2 = ctx1\<lparr>child_regs := read_child_registers E (child_tid ctx1) w2\<rparr>
           in (ctx2, w2)))"

text \<open>The loop condition \<open>WRAP_SYSCALLS_CALLSITE_IN_WRAPPER(ctx->child_regs.eip, ctx)\<close>.\<close>

definition handle_signal_loop_cond :: "'w env \<Rightarrow> context \<times> 'w \<Rightarrow> bool" where
  "handle_signal_loop_cond E s =
     WRAP_SYSCALLS_CALLSITE_IN_WRAPPER E (eip (child_regs (fst s))) (fst s)"

text \<open>
  The \<open>while\<close> loop. Nothing in the code bounds it, so it is a partial function:
  \<open>None\<close> is a loop that never ends.
\<close>

partial_function (option) handle_signal_loop ::
  "'w env \<Rightarrow> context \<times> 'w \<Rightarrow> (context \<times> 'w) option" where
  "handle_signal_loop E s =
     (if handle_signal_loop_cond E s
      then handle_signal_loop E (handle_signal_loop_body E s)
      else Some s)"

declare handle_signal_loop.simps [code]

text \<open>
  \<open>sig\<close> is read from the status once, before the loop. In the \<open>switch\<close>, the
  SIGSEGV case returns when a handler claims the fault and breaks otherwise; the SIGIO
  case returns when the budget is used up and otherwise falls out of the \<open>switch\<close>;
  every path that has not returned ends in \<open>record_signal\<close>.
\<close>

definition handle_signal :: "'w env \<Rightarrow> context \<Rightarrow> 'w \<Rightarrow> (error + context \<times> 'w) option" where
  "handle_signal E ctx0 w0 =
     (let sig = signal_pending E (status ctx0) in
      case handle_signal_loop E (ctx0, w0) of
        None \<Rightarrow> None
      | Some (ctx, w) \<Rightarrow> Some
          (if sig = SIGSEGV then
             (case try_handle_rdtsc E ctx w of
                Inl e \<Rightarrow> Inl e
              | Inr (r, ctx1, w1) \<Rightarrow>
                  if r \<noteq> 0 then Inr (ctx1\<lparr>event := SIG_SEGV_RDTSC E, child_sig := 0\<rparr>, w1)
                  else
                    (case try_handle_shared_mmap_access E ctx1 w1 of
                       Inl e \<Rightarrow> Inl e
                     | Inr (mmap_event, ctx2, w2) \<Rightarrow>
                         if mmap_event \<noteq> 0
                         then Inr (ctx2\<lparr>event := mmap_event, child_sig := 0\<rparr>, w2)
                         else record_signal E sig ctx2 w2))
           else if sig = SIGIO then
             (if read_rbc E (hpc ctx) w \<ge> MAX_RECORD_INTERVAL E
              then Inr (ctx\<lparr>event := USR_SCHED E, child_sig := 0\<rparr>, w)
              else record_signal E sig ctx w)
           else record_signal E sig ctx w))"

text \<open>
  The code of \<open>handle_signal\<close> below the loop, on its own: the \<open>switch\<close> and the call of
  \<open>record_signal\<close>, as a function of the signal read at entry and of the state the loop
  leaves. \<open>handle_signal\<close> is the loop followed by it.
\<close>

definition handle_signal_switch ::
  "'w env \<Rightarrow> int \<Rightarrow> context \<Rightarrow> 'w \<Rightarrow> error + context \<times> 'w" where
  "handle_signal_switch E sig ctx w =
     (if sig = SIGSEGV then
        (case try_handle_rdtsc E ctx w of
           Inl e \<Rightarrow> Inl e
         | Inr (r, ctx1, w1) \<Rightarrow>
             if r \<noteq> 0 then Inr (ctx1\<lparr>event := SIG_SEGV_RDTSC E, child_sig := 0\<rparr>, w1)
             else
               (case try_handle_shared_mmap_access E ctx1 w1 of
                  Inl e \<Rightarrow> Inl e
                | Inr (mmap_event, ctx2, w2) \<Rightarrow>
                    if mmap_event \<noteq> 0
                    then Inr (ctx2\<lparr>event := mmap_event, child_sig := 0\<rparr>, w2)
                    else record_signal E sig ctx2 w2))
      else if sig = SIGIO then
        (if read_rbc E (hpc ctx) w \<ge> MAX_RECORD_INTERVAL E
         then Inr (ctx\<lparr>event := USR_SCHED E, child_sig := 0\<rparr>, w)
         else record_signal E sig ctx w)
      else record_signal E sig ctx w)"


subsection \<open>Outcomes and paths of one invocation\<close>

text \<open>
  The event outcomes of the spec's data model, as the values the code stores in
  \<open>ctx->event\<close> for a pending signal \<open>sig\<close>: the three synthetic-fault tags, the
  scheduler tag, and the negated signal number with or without the determinism bit.
\<close>

definition outcome_tags :: "'w env \<Rightarrow> int \<Rightarrow> int set" where
  "outcome_tags E sig =
     {SIG_SEGV_RDTSC E, SIG_SEGV_MMAP_READ E, SIG_SEGV_MMAP_WRITE E, USR_SCHED E,
      - (sig OR DET_SIGNAL_BIT E), - sig}"

text \<open>
  The two early returns of the \<open>switch\<close> in \<open>handle_signal\<close>, as conditions on the state
  the loop leaves: a synthetic-fault handler answers nonzero for SIGSEGV, or the
  counter has reached the budget for SIGIO.
\<close>

definition resolved_synthetic :: "'w env \<Rightarrow> int \<Rightarrow> context \<Rightarrow> 'w \<Rightarrow> bool" where
  "resolved_synthetic E sig ctx w \<longleftrightarrow>
     sig = SIGSEGV \<and>
     (case try_handle_rdtsc E ctx w of
        Inl e \<Rightarrow> False
      | Inr (r, ctx1, w1) \<Rightarrow>
          r \<noteq> 0 \<or>
          (case try_handle_shared_mmap_access E ctx1 w1 of
             Inl e \<Rightarrow> False
           | Inr (mmap_event, ctx2, w2) \<Rightarrow> mmap_event \<noteq> 0))"

definition resolved_sched :: "'w env \<Rightarrow> int \<Rightarrow> context \<Rightarrow> 'w \<Rightarrow> bool" where
  "resolved_sched E sig ctx w \<longleftrightarrow>
     sig = SIGIO \<and> MAX_RECORD_INTERVAL E \<le> read_rbc E (hpc ctx) w"

subsection \<open>A small tracee on which the functions run\<close>

text \<open>
  A concrete world for evaluating the functions: one stopped tracee with its register
  file, its pending fault info, the instruction the decoder reports at the instruction
  pointer, one protected region \<open>[lo, hi)\<close>, the host's timestamp counter, the two
  performance counters, the status the next wait reports and the trace log. A
  single-step without a signal retires one instruction of one byte. A single-step that
  delivers a signal enters the handler when one is installed (the kernel pushes a frame
  and no instruction retires) and otherwise retires one instruction. The wait status of
  a stop on signal \<open>n\<close> is \<open>256 * n + 127\<close>; the wrapper code occupies
  \<open>[0x1000, 0x1002)\<close>.
\<close>

datatype log_entry = LogEvent int int | LogData int nat addr

record sim =
  sim_regs :: user_regs_struct
  sim_siginfo :: siginfo_t
  sim_inst :: "string \<times> int"
  sim_is_write :: bool
  sim_protected :: "addr \<times> addr"
  sim_handler :: bool
  sim_tsc :: "64 word"
  sim_insts :: int
  sim_rbc :: int
  sim_wstatus :: int
  sim_log :: "log_entry list"

definition sim_step :: "int \<Rightarrow> sim \<Rightarrow> sim" where
  "sim_step sig w =
     (if sig \<noteq> 0 \<and> sim_handler w
      then w\<lparr>sim_regs := (sim_regs w)\<lparr>eip := 0x3000, esp := esp (sim_regs w) - 0x2dc\<rparr>\<rparr>
      else w\<lparr>sim_regs := (sim_regs w)\<lparr>eip := eip (sim_regs w) + 1\<rparr>,
             sim_insts := sim_insts w + 1, sim_rbc := sim_rbc w + 1\<rparr>)"

definition sim_env :: "sim env" where
  "sim_env =
     \<lparr>signal_pending = (\<lambda>st. (st div 256) mod 256),
      get_inst = (\<lambda>tid off w. sim_inst w),
      is_write_mem_instruction = (\<lambda>tid off w. (sim_is_write w, snd (sim_inst w))),
      rdtsc_insn = (\<lambda>w. ((ucast (sim_tsc w), ucast (drop_bit 32 (sim_tsc w))),
                           w\<lparr>sim_tsc := sim_tsc w + 1\<rparr>)),
      read_child_registers = (\<lambda>tid w. sim_regs w),
      write_child_registers = (\<lambda>tid r w. w\<lparr>sim_regs := r\<rparr>),
      sys_ptrace_getsiginfo = (\<lambda>tid w. sim_siginfo w),
      sys_ptrace_singlestep_sig = (\<lambda>tid sig w. sim_step sig w),
      sys_waitpid = (\<lambda>tid w. (sim_wstatus w, w)),
      is_protected_map = (\<lambda>c a w. fst (sim_protected w) \<le> a \<and> a < snd (sim_protected w)),
      emulate_child_inst = (\<lambda>c off w.
         w\<lparr>sim_regs := (sim_regs w)\<lparr>eip := eip (sim_regs w) + word_of_int (snd (sim_inst w))\<rparr>\<rparr>),
      record_event = (\<lambda>c st w. w\<lparr>sim_log := sim_log w @ [LogEvent (event c) st]\<rparr>),
      record_child_data = (\<lambda>c ev n a w. w\<lparr>sim_log := sim_log w @ [LogData ev n a]\<rparr>),
      reset_hpc = (\<lambda>c n w. w\<lparr>sim_insts := 0, sim_rbc := 0\<rparr>),
      read_insts = (\<lambda>h w. sim_insts w),
      read_rbc = (\<lambda>h w. sim_rbc w),
      WRAP_SYSCALLS_CALLSITE_IN_WRAPPER = (\<lambda>ip c. 0x1000 \<le> ip \<and> ip < 0x1002),
      SIG_SEGV_RDTSC = - 1024,
      SIG_SEGV_MMAP_READ = - 1022,
      SIG_SEGV_MMAP_WRITE = - 1023,
      USR_SCHED = - 1026,
      DET_SIGNAL_BIT = 128,
      MAX_RECORD_INTERVAL = 500000,
      STATE_SYSCALL_ENTRY = 1\<rparr>"

text \<open>The same tracee stuck on an instruction that jumps to itself: a step changes nothing.\<close>

definition spin_env :: "sim env" where
  "spin_env = sim_env\<lparr>sys_ptrace_singlestep_sig := (\<lambda>tid sig w. w)\<rparr>"

definition regs_at :: "32 word \<Rightarrow> user_regs_struct" where
  "regs_at ip =
     \<lparr>ebx = 0, ecx = 0, edx = 0, esi = 0, edi = 0, ebp = 0, eax = 0, xds = 0, xes = 0,
      xfs = 0, xgs = 0, orig_eax = 0, eip = ip, xcs = 0, eflags = 0, esp = 0x8000, xss = 0\<rparr>"

definition sim_ctx :: "int \<Rightarrow> 32 word \<Rightarrow> context" where
  "sim_ctx st ip =
     \<lparr>child_tid = 100, status = st, event = 77, child_sig = 0, child_regs = regs_at ip, hpc = 0\<rparr>"

definition sim_world :: "int \<Rightarrow> 32 word \<Rightarrow> siginfo_t \<Rightarrow> sim" where
  "sim_world st ip si =
     \<lparr>sim_regs = regs_at ip, sim_siginfo = si, sim_inst = (''mov'', 3), sim_is_write = True,
      sim_protected = (0x5000, 0x6000), sim_handler = True, sim_tsc = 0x100000002,
      sim_insts = 10, sim_rbc = 10, sim_wstatus = st, sim_log = []\<rparr>"

section \<open>Auxiliary facts\<close>

lemmas signal_numbers =
  SIGILL_def SIGTRAP_def SIGBUS_def SIGFPE_def SIGSEGV_def SIGSTKFLT_def SIGIO_def

lemmas sim_defs = sim_env_def sim_ctx_def sim_world_def regs_at_def sim_step_def

lemma SIGSEGV_facts: "SIGSEGV \<noteq> SIGTRAP" "0 < SIGSEGV" "\<not> SIGSEGV \<le> 0" "SIGSEGV \<noteq> SIGIO" "SIGIO \<noteq> SIGSEGV"
  by (simp_all add: signal_numbers)

lemma SIGSEGV_nonzero: "SIGSEGV \<noteq> 0" "0 \<noteq> SIGSEGV"
  by (simp_all add: SIGSEGV_def)






text \<open>What the two synthetic-fault handlers can answer.\<close>

lemma try_handle_rdtsc_cases:
  "(signal_pending E (status ctx) = SIGTRAP \<and> try_handle_rdtsc E ctx w = Inl AssertionFailed)
   \<or> (signal_pending E (status ctx) \<noteq> SIGTRAP \<and>
        (try_handle_rdtsc E ctx w = Inr (0, ctx, w)
         \<or> (\<exists>w'. try_handle_rdtsc E ctx w = Inr (1, ctx\<lparr>event := SIG_SEGV_RDTSC E\<rparr>, w'))))"
  by (simp add: try_handle_rdtsc_def Let_def split: prod.splits)


lemma try_handle_shared_mmap_access_cases:
  "(signal_pending E (status ctx) = SIGTRAP
      \<and> try_handle_shared_mmap_access E ctx w = Inl AssertionFailed)
   \<or> (signal_pending E (status ctx) \<noteq> SIGTRAP \<and>
        (try_handle_shared_mmap_access E ctx w = Inr (0, ctx, w)
         \<or> (\<exists>tag w'. try_handle_shared_mmap_access E ctx w = Inr (tag, ctx\<lparr>event := tag\<rparr>, w')
               \<and> (tag = SIG_SEGV_MMAP_WRITE E \<or> tag = SIG_SEGV_MMAP_READ E))))"
  by (simp add: try_handle_shared_mmap_access_def Let_def split: prod.splits)

text \<open>What \<open>record_signal\<close> leaves in the context.\<close>

lemma record_signal_nosig: "sig \<le> 0 \<Longrightarrow> record_signal E sig ctx w = Inr (ctx, w)"
  by (simp add: record_signal_def)

lemma record_signal_fields:
  assumes "0 < sig" and "record_signal E sig ctx w = Inr (ctx', w')"
  shows "child_sig ctx' = sig \<and> (event ctx' = - sig \<or> event ctx' = - (sig OR DET_SIGNAL_BIT E))"
  using assms
  by (auto simp add: record_signal_def Let_def split: if_splits prod.splits)

text \<open>The loop: one unfolding, the fields it keeps, and its exit.\<close>

lemma handle_signal_loop_in:
  "handle_signal_loop_cond E s \<Longrightarrow> handle_signal_loop E s = handle_signal_loop E (handle_signal_loop_body E s)"
  by (subst handle_signal_loop.simps) simp

lemma handle_signal_loop_out:
  "\<not> handle_signal_loop_cond E s \<Longrightarrow> handle_signal_loop E s = Some s"
  by (subst handle_signal_loop.simps) simp

lemma handle_signal_loop_body_fields:
  "event (fst (handle_signal_loop_body E s)) = event (fst s)"
  "child_sig (fst (handle_signal_loop_body E s)) = child_sig (fst s)"
  "child_tid (fst (handle_signal_loop_body E s)) = child_tid (fst s)"
  "hpc (fst (handle_signal_loop_body E s)) = hpc (fst s)"
  by (simp_all add: handle_signal_loop_body_def Let_def split: prod.splits)

lemma handle_signal_loop_fields:
  assumes "handle_signal_loop E s = Some s'"
  shows "event (fst s') = event (fst s) \<and> child_sig (fst s') = child_sig (fst s)
       \<and> child_tid (fst s') = child_tid (fst s) \<and> hpc (fst s') = hpc (fst s)
       \<and> \<not> handle_signal_loop_cond E s'"
proof (rule handle_signal_loop.raw_induct
    [where P = "\<lambda>E s s'. event (fst s') = event (fst s) \<and> child_sig (fst s') = child_sig (fst s)
       \<and> child_tid (fst s') = child_tid (fst s) \<and> hpc (fst s') = hpc (fst s)
       \<and> \<not> handle_signal_loop_cond E s'", OF _ assms])
  fix loop :: "'a env \<Rightarrow> context \<times> 'a \<Rightarrow> (context \<times> 'a) option" and E s s'
  assume IH: "\<And>E s s'. loop E s = Some s' \<Longrightarrow>
      event (fst s') = event (fst s) \<and> child_sig (fst s') = child_sig (fst s)
       \<and> child_tid (fst s') = child_tid (fst s) \<and> hpc (fst s') = hpc (fst s)
       \<and> \<not> handle_signal_loop_cond E s'"
    and eq: "(if handle_signal_loop_cond E s then loop E (handle_signal_loop_body E s) else Some s)
       = Some s'"
  show "event (fst s') = event (fst s) \<and> child_sig (fst s') = child_sig (fst s)
       \<and> child_tid (fst s') = child_tid (fst s) \<and> hpc (fst s') = hpc (fst s)
       \<and> \<not> handle_signal_loop_cond E s'"
  proof (cases "handle_signal_loop_cond E s")
    case True
    with eq have "loop E (handle_signal_loop_body E s) = Some s'" by simp
    from IH [OF this] show ?thesis by (simp add: handle_signal_loop_body_fields)
  next
    case False
    with eq show ?thesis by simp
  qed
qed

lemma handle_signal_loop_exits:
  "\<not> handle_signal_loop_cond E ((handle_signal_loop_body E ^^ n) s) \<Longrightarrow>
   \<exists>k\<le>n. handle_signal_loop E s = Some ((handle_signal_loop_body E ^^ k) s)
        \<and> \<not> handle_signal_loop_cond E ((handle_signal_loop_body E ^^ k) s)
        \<and> (\<forall>j<k. handle_signal_loop_cond E ((handle_signal_loop_body E ^^ j) s))"
proof (induction n arbitrary: s)
  case 0
  then show ?case by (simp add: handle_signal_loop_out)
next
  case (Suc n)
  show ?case
  proof (cases "handle_signal_loop_cond E s")
    case False
    then show ?thesis by (intro exI [of _ 0]) (simp add: handle_signal_loop_out)
  next
    case True
    from Suc.prems have "\<not> handle_signal_loop_cond E
        ((handle_signal_loop_body E ^^ n) (handle_signal_loop_body E s))"
      by (simp add: funpow_swap1)
    from Suc.IH [OF this] obtain k where k: "k \<le> n"
      "handle_signal_loop E (handle_signal_loop_body E s)
         = Some ((handle_signal_loop_body E ^^ k) (handle_signal_loop_body E s))"
      "\<not> handle_signal_loop_cond E ((handle_signal_loop_body E ^^ k) (handle_signal_loop_body E s))"
      "\<forall>j<k. handle_signal_loop_cond E ((handle_signal_loop_body E ^^ j) (handle_signal_loop_body E s))"
      by blast
    have "\<forall>j<Suc k. handle_signal_loop_cond E ((handle_signal_loop_body E ^^ j) s)"
    proof (intro allI impI)
      fix j assume "j < Suc k"
      then show "handle_signal_loop_cond E ((handle_signal_loop_body E ^^ j) s)"
        using True k(4) by (cases j) (simp_all add: funpow_swap1)
    qed
    with k True show ?thesis
      by (intro exI [of _ "Suc k"]) (simp add: handle_signal_loop_in funpow_swap1)
  qed
qed

lemma handle_signal_None:
  "handle_signal E ctx0 w0 = None \<longleftrightarrow> handle_signal_loop E (ctx0, w0) = None"
  by (simp add: handle_signal_def Let_def split: option.splits)

lemma handle_signal_after_loop:
  "handle_signal_loop E (ctx0, w0) = Some (ctx, w) \<Longrightarrow>
   handle_signal E ctx0 w0 = Some (handle_signal_switch E (signal_pending E (status ctx0)) ctx w)"
  by (simp add: handle_signal_def handle_signal_switch_def Let_def)

text \<open>
  The loop returns exactly when some number of passes leads out of the wrapper: it ends
  at the first such state, and it never ends when there is none.
\<close>

lemma handle_signal_loop_first_exit:
  assumes "\<not> handle_signal_loop_cond E ((handle_signal_loop_body E ^^ k) s)"
    and "\<forall>j<k. handle_signal_loop_cond E ((handle_signal_loop_body E ^^ j) s)"
  shows "handle_signal_loop E s = Some ((handle_signal_loop_body E ^^ k) s)"
proof -
  from handle_signal_loop_exits [OF assms(1)] obtain k' where k': "k' \<le> k"
    "handle_signal_loop E s = Some ((handle_signal_loop_body E ^^ k') s)"
    "\<not> handle_signal_loop_cond E ((handle_signal_loop_body E ^^ k') s)"
    by blast
  from k'(3) assms(2) have "\<not> k' < k" by blast
  with k'(1) have "k' = k" by simp
  with k'(2) show ?thesis by simp
qed

lemma handle_signal_loop_Some_exit:
  assumes "handle_signal_loop E s = Some s'"
  shows "\<exists>n. \<not> handle_signal_loop_cond E ((handle_signal_loop_body E ^^ n) s)"
proof (rule handle_signal_loop.raw_induct
    [where P = "\<lambda>E s s'. \<exists>n. \<not> handle_signal_loop_cond E ((handle_signal_loop_body E ^^ n) s)",
      OF _ assms])
  fix loop :: "'a env \<Rightarrow> context \<times> 'a \<Rightarrow> (context \<times> 'a) option" and E s s'
  assume IH: "\<And>E s s'. loop E s = Some s' \<Longrightarrow>
      \<exists>n. \<not> handle_signal_loop_cond E ((handle_signal_loop_body E ^^ n) s)"
    and eq: "(if handle_signal_loop_cond E s then loop E (handle_signal_loop_body E s) else Some s)
       = Some s'"
  show "\<exists>n. \<not> handle_signal_loop_cond E ((handle_signal_loop_body E ^^ n) s)"
  proof (cases "handle_signal_loop_cond E s")
    case True
    with eq have "loop E (handle_signal_loop_body E s) = Some s'" by simp
    from IH [OF this] obtain n where
      "\<not> handle_signal_loop_cond E ((handle_signal_loop_body E ^^ n) (handle_signal_loop_body E s))"
      by blast
    then have "\<not> handle_signal_loop_cond E ((handle_signal_loop_body E ^^ Suc n) s)"
      by (simp add: funpow_swap1)
    then show ?thesis by blast
  next
    case False
    then have "\<not> handle_signal_loop_cond E ((handle_signal_loop_body E ^^ 0) s)" by simp
    then show ?thesis by blast
  qed
qed

lemma handle_signal_loop_diverges:
  "\<forall>n. handle_signal_loop_cond E ((handle_signal_loop_body E ^^ n) s) \<Longrightarrow>
   handle_signal_loop E s = None"
  using handle_signal_loop_Some_exit [of E s]
  by (cases "handle_signal_loop E s") auto

lemma handle_signal_loop_fixpoint:
  assumes "handle_signal_loop_cond E s" and "handle_signal_loop_body E s = s"
  shows "handle_signal_loop E s = None"
proof (rule handle_signal_loop_diverges, rule allI)
  fix n
  have "(handle_signal_loop_body E ^^ n) s = s"
    by (induction n) (simp_all add: assms(2))
  with assms(1) show "handle_signal_loop_cond E ((handle_signal_loop_body E ^^ n) s)" by simp
qed

lemma sim_loop_out:
  "\<not> (0x1000 \<le> ip \<and> ip < 0x1002) \<Longrightarrow>
   handle_signal_loop sim_env (sim_ctx st ip, w) = Some (sim_ctx st ip, w)"
  by (rule handle_signal_loop_out) (simp add: handle_signal_loop_cond_def sim_defs)

text \<open>Runs of the small tracee: two passes of the loop, and a recorded SIGILL.\<close>

lemma sim_cond: "handle_signal_loop_cond sim_env (sim_ctx st ip, w) \<longleftrightarrow> 0x1000 \<le> ip \<and> ip < 0x1002"
  by (simp add: handle_signal_loop_cond_def sim_defs)


lemma sim_world_counters: "sim_world st ip si = (sim_world st ip si)\<lparr>sim_insts := 10, sim_rbc := 10\<rparr>"
  by (simp add: sim_world_def)

lemma sim_body_step:
  "ip + 1 = ip' \<Longrightarrow>
   handle_signal_loop_body sim_env
     (sim_ctx st ip, (sim_world st ip si)\<lparr>sim_insts := n, sim_rbc := m\<rparr>)
   = (sim_ctx st ip', (sim_world st ip' si)\<lparr>sim_insts := n + 1, sim_rbc := m + 1\<rparr>)"
  by (auto simp add: handle_signal_loop_body_def sim_defs)

lemma sim_body_once:
  "(handle_signal_loop_body sim_env ^^ 1)
     (sim_ctx 2943 0x1000, sim_world 2943 0x1000 \<lparr>si_signo = 11, si_code = 1, si_addr = 0\<rparr>)
   = (sim_ctx 2943 0x1001,
      (sim_world 2943 0x1001 \<lparr>si_signo = 11, si_code = 1, si_addr = 0\<rparr>)\<lparr>sim_insts := 11, sim_rbc := 11\<rparr>)"
  apply simp
  apply (subst sim_world_counters)
  apply (simp add: sim_body_step [where ip' = "0x1001"])
  done

lemma sim_body_twice:
  "(handle_signal_loop_body sim_env ^^ 2)
     (sim_ctx 2943 0x1000, sim_world 2943 0x1000 \<lparr>si_signo = 11, si_code = 1, si_addr = 0\<rparr>)
   = (sim_ctx 2943 0x1002,
      (sim_world 2943 0x1002 \<lparr>si_signo = 11, si_code = 1, si_addr = 0\<rparr>)\<lparr>sim_insts := 12, sim_rbc := 12\<rparr>)"
  apply (simp add: numeral_2_eq_2)
  apply (subst sim_world_counters)
  apply (simp add: sim_body_step [where ip' = "0x1001"] sim_body_step [where ip' = "0x1002"])
  done

lemma sim_record_sigill:
  "record_signal sim_env 4 (sim_ctx 1151 0x2000)
      (sim_world 1407 0x2000 \<lparr>si_signo = 4, si_code = 1, si_addr = 0\<rparr>)
   = Inr ((sim_ctx 1151 0x2000)\<lparr>child_sig := 4, event := - 132, status := 1407\<rparr>,
          (sim_world 1407 0x2000 \<lparr>si_signo = 4, si_code = 1, si_addr = 0\<rparr>)
            \<lparr>sim_regs := (regs_at 0x2000)\<lparr>eip := 0x3000, esp := 0x7d24\<rparr>,
             sim_insts := 0, sim_rbc := 0,
             sim_log := [LogEvent (- 132) 1, LogData (- 132) 1024 0x7d24]\<rparr>)"
  by (simp add: record_signal_def is_deterministic_signal_def Let_def sim_defs signal_numbers)

lemma sim_handle_sigill:
  "handle_signal sim_env (sim_ctx 1151 0x2000)
      (sim_world 1407 0x2000 \<lparr>si_signo = 4, si_code = 1, si_addr = 0\<rparr>)
   = Some (Inr ((sim_ctx 1151 0x2000)\<lparr>child_sig := 4, event := - 132, status := 1407\<rparr>,
          (sim_world 1407 0x2000 \<lparr>si_signo = 4, si_code = 1, si_addr = 0\<rparr>)
            \<lparr>sim_regs := (regs_at 0x2000)\<lparr>eip := 0x3000, esp := 0x7d24\<rparr>,
             sim_insts := 0, sim_rbc := 0,
             sim_log := [LogEvent (- 132) 1, LogData (- 132) 1024 0x7d24]\<rparr>))"
proof -
  have "signal_pending sim_env (status (sim_ctx 1151 0x2000)) = 4"
    by (simp add: sim_defs)
  then show ?thesis
    by (simp add: handle_signal_def sim_loop_out sim_record_sigill signal_numbers)
qed

text \<open>The tracee that jumps to itself never leaves the wrapper.\<close>

lemma spin_body:
  "handle_signal_loop_body spin_env
     (sim_ctx 2943 0x1000, sim_world 2943 0x1000 \<lparr>si_signo = 11, si_code = 1, si_addr = 0\<rparr>)
   = (sim_ctx 2943 0x1000, sim_world 2943 0x1000 \<lparr>si_signo = 11, si_code = 1, si_addr = 0\<rparr>)"
  by (simp add: handle_signal_loop_body_def spin_env_def sim_defs)

lemma spin_cond:
  "handle_signal_loop_cond spin_env
     (sim_ctx 2943 0x1000, sim_world 2943 0x1000 \<lparr>si_signo = 11, si_code = 1, si_addr = 0\<rparr>)"
  by (simp add: handle_signal_loop_cond_def spin_env_def sim_defs)

lemma spin_loop:
  "handle_signal_loop spin_env
     (sim_ctx 2943 0x1000, sim_world 2943 0x1000 \<lparr>si_signo = 11, si_code = 1, si_addr = 0\<rparr>) = None"
proof (cases "handle_signal_loop spin_env
     (sim_ctx 2943 0x1000, sim_world 2943 0x1000 \<lparr>si_signo = 11, si_code = 1, si_addr = 0\<rparr>)")
  case None
  then show ?thesis .
next
  case (Some s')
  have "\<not> (spin_env = spin_env \<and>
      (sim_ctx 2943 0x1000, sim_world 2943 0x1000 \<lparr>si_signo = 11, si_code = 1, si_addr = 0\<rparr>)
      = (sim_ctx 2943 0x1000, sim_world 2943 0x1000 \<lparr>si_signo = 11, si_code = 1, si_addr = 0\<rparr>))"
  proof (rule handle_signal_loop.raw_induct
    [where P = "\<lambda>E s s'. \<not> (E = spin_env \<and> s = (sim_ctx 2943 0x1000,
           sim_world 2943 0x1000 \<lparr>si_signo = 11, si_code = 1, si_addr = 0\<rparr>))", OF _ Some])
    fix loop :: "sim env \<Rightarrow> context \<times> sim \<Rightarrow> (context \<times> sim) option" and E s s'
    assume IH: "\<And>E s s'. loop E s = Some s' \<Longrightarrow> \<not> (E = spin_env \<and> s = (sim_ctx 2943 0x1000,
           sim_world 2943 0x1000 \<lparr>si_signo = 11, si_code = 1, si_addr = 0\<rparr>))"
      and eq: "(if handle_signal_loop_cond E s then loop E (handle_signal_loop_body E s) else Some s)
         = Some s'"
    show "\<not> (E = spin_env \<and> s = (sim_ctx 2943 0x1000,
           sim_world 2943 0x1000 \<lparr>si_signo = 11, si_code = 1, si_addr = 0\<rparr>))"
    proof
      assume a: "E = spin_env \<and> s = (sim_ctx 2943 0x1000,
           sim_world 2943 0x1000 \<lparr>si_signo = 11, si_code = 1, si_addr = 0\<rparr>)"
      with eq have "loop E s = Some s'" by (simp add: spin_cond spin_body)
      from IH [OF this] a show False by simp
    qed
  qed
  then show ?thesis by simp
qed

lemma spin_env_fixpoint:
  assumes "sim_wstatus w = st" and "sim_regs w = regs_at ip" and "0x1000 \<le> ip \<and> ip < 0x1002"
  shows "handle_signal_loop spin_env (sim_ctx st ip, w) = None"
proof (rule handle_signal_loop_fixpoint)
  show "handle_signal_loop_cond spin_env (sim_ctx st ip, w)"
    using assms(3) by (simp add: handle_signal_loop_cond_def spin_env_def sim_defs)
  show "handle_signal_loop_body spin_env (sim_ctx st ip, w) = (sim_ctx st ip, w)"
    using assms(1,2) by (simp add: handle_signal_loop_body_def spin_env_def sim_defs)
qed

section \<open>Properties\<close>

text \<open>
  C1. When the signal number is one of SIGILL, SIGTRAP, SIGBUS, SIGFPE, SIGSEGV and
  SIGSTKFLT, the classifier answers deterministic (nonzero) exactly when \<open>si_code\<close> is
  strictly positive; for every other signal number it answers 0, whatever \<open>si_code\<close> is.
\<close>

theorem is_deterministic_signal_iff:
  "(si_signo si \<in> {SIGILL, SIGTRAP, SIGBUS, SIGFPE, SIGSEGV, SIGSTKFLT} \<longrightarrow>
      (is_deterministic_signal si \<noteq> 0 \<longleftrightarrow> 0 < si_code si))
   \<and> (si_signo si \<notin> {SIGILL, SIGTRAP, SIGBUS, SIGFPE, SIGSEGV, SIGSTKFLT} \<longrightarrow>
      is_deterministic_signal si = 0)"
  by (simp add: is_deterministic_signal_def)

theorem is_deterministic_signal_iff_witness:
  "si_signo \<lparr>si_signo = 11, si_code = 1, si_addr = 0\<rparr>
      \<in> {SIGILL, SIGTRAP, SIGBUS, SIGFPE, SIGSEGV, SIGSTKFLT}
   \<and> is_deterministic_signal \<lparr>si_signo = 11, si_code = 1, si_addr = 0\<rparr> \<noteq> 0
   \<and> si_signo \<lparr>si_signo = 14, si_code = 1, si_addr = 0\<rparr>
      \<notin> {SIGILL, SIGTRAP, SIGBUS, SIGFPE, SIGSEGV, SIGSTKFLT}
   \<and> is_deterministic_signal \<lparr>si_signo = 14, si_code = 1, si_addr = 0\<rparr> = 0"
  using is_deterministic_signal_iff [of "\<lparr>si_signo = 11, si_code = 1, si_addr = 0\<rparr>"]
    is_deterministic_signal_iff [of "\<lparr>si_signo = 14, si_code = 1, si_addr = 0\<rparr>"]
  by (simp add: signal_numbers)







text \<open>
  C4, as the code has it. Let \<open>k\<close> passes of the loop body lead from the state at entry
  to \<open>(ctx, w)\<close>, the first state outside the wrapper, with SIGIO pending at entry. When
  \<open>read_rbc\<close> is at least \<open>MAX_RECORD_INTERVAL\<close> there, \<open>handle_signal\<close> returns the
  context with event \<open>USR_SCHED\<close> and \<open>child_sig = 0\<close> and the world untouched, so
  \<open>record_signal\<close> has not run; when the counter is below the budget, the result is
  that of \<open>record_signal\<close> for SIGIO.
\<close>

theorem handle_signal_sigio:
  assumes "(handle_signal_loop_body E ^^ k) (ctx0, w0) = (ctx, w)"
    and "\<not> handle_signal_loop_cond E (ctx, w)"
    and "\<forall>j<k. handle_signal_loop_cond E ((handle_signal_loop_body E ^^ j) (ctx0, w0))"
    and "signal_pending E (status ctx0) = SIGIO"
  shows "(MAX_RECORD_INTERVAL E \<le> read_rbc E (hpc ctx) w \<longrightarrow>
            handle_signal E ctx0 w0 = Some (Inr (ctx\<lparr>event := USR_SCHED E, child_sig := 0\<rparr>, w)))
       \<and> (read_rbc E (hpc ctx) w < MAX_RECORD_INTERVAL E \<longrightarrow>
            handle_signal E ctx0 w0 = Some (record_signal E SIGIO ctx w))"
proof -
  have "handle_signal_loop E (ctx0, w0) = Some (ctx, w)"
    using handle_signal_loop_first_exit [of E k "(ctx0, w0)"] assms(1,2,3) by simp
  with assms(4) show ?thesis by (simp add: handle_signal_def SIGSEGV_facts)
qed

theorem handle_signal_sigio_witness:
  "(handle_signal_loop_body sim_env ^^ 1)
       (sim_ctx 7551 0x1001,
        (sim_world 7551 0x1001 \<lparr>si_signo = 29, si_code = 1, si_addr = 0\<rparr>)
          \<lparr>sim_insts := 10, sim_rbc := 499999\<rparr>)
     = (sim_ctx 7551 0x1002,
        (sim_world 7551 0x1002 \<lparr>si_signo = 29, si_code = 1, si_addr = 0\<rparr>)
          \<lparr>sim_insts := 11, sim_rbc := 500000\<rparr>)
   \<and> \<not> handle_signal_loop_cond sim_env
       (sim_ctx 7551 0x1002,
        (sim_world 7551 0x1002 \<lparr>si_signo = 29, si_code = 1, si_addr = 0\<rparr>)
          \<lparr>sim_insts := 11, sim_rbc := 500000\<rparr>)
   \<and> handle_signal_loop_cond sim_env
       (sim_ctx 7551 0x1001,
        (sim_world 7551 0x1001 \<lparr>si_signo = 29, si_code = 1, si_addr = 0\<rparr>)
          \<lparr>sim_insts := 10, sim_rbc := 499999\<rparr>)
   \<and> signal_pending sim_env (status (sim_ctx 7551 0x1001)) = SIGIO
   \<and> MAX_RECORD_INTERVAL sim_env \<le> read_rbc sim_env (hpc (sim_ctx 7551 0x1002))
        ((sim_world 7551 0x1002 \<lparr>si_signo = 29, si_code = 1, si_addr = 0\<rparr>)
          \<lparr>sim_insts := 11, sim_rbc := 500000\<rparr>)
   \<and> handle_signal sim_env (sim_ctx 7551 0x1001)
        ((sim_world 7551 0x1001 \<lparr>si_signo = 29, si_code = 1, si_addr = 0\<rparr>)
          \<lparr>sim_insts := 10, sim_rbc := 499999\<rparr>)
       = Some (Inr ((sim_ctx 7551 0x1002)\<lparr>event := - 1026, child_sig := 0\<rparr>,
           (sim_world 7551 0x1002 \<lparr>si_signo = 29, si_code = 1, si_addr = 0\<rparr>)
             \<lparr>sim_insts := 11, sim_rbc := 500000\<rparr>))
   \<and> (handle_signal_loop_body sim_env ^^ 0)
       (sim_ctx 7551 0x2000, sim_world 7551 0x2000 \<lparr>si_signo = 29, si_code = 1, si_addr = 0\<rparr>)
     = (sim_ctx 7551 0x2000, sim_world 7551 0x2000 \<lparr>si_signo = 29, si_code = 1, si_addr = 0\<rparr>)
   \<and> \<not> handle_signal_loop_cond sim_env
       (sim_ctx 7551 0x2000, sim_world 7551 0x2000 \<lparr>si_signo = 29, si_code = 1, si_addr = 0\<rparr>)
   \<and> signal_pending sim_env (status (sim_ctx 7551 0x2000)) = SIGIO
   \<and> read_rbc sim_env (hpc (sim_ctx 7551 0x2000))
        (sim_world 7551 0x2000 \<lparr>si_signo = 29, si_code = 1, si_addr = 0\<rparr>)
       < MAX_RECORD_INTERVAL sim_env
   \<and> handle_signal sim_env (sim_ctx 7551 0x2000)
        (sim_world 7551 0x2000 \<lparr>si_signo = 29, si_code = 1, si_addr = 0\<rparr>)
       = Some (record_signal sim_env SIGIO (sim_ctx 7551 0x2000)
            (sim_world 7551 0x2000 \<lparr>si_signo = 29, si_code = 1, si_addr = 0\<rparr>))"
proof -
  let ?ci = "sim_ctx 7551 0x1001"
  let ?wi = "(sim_world 7551 0x1001 \<lparr>si_signo = 29, si_code = 1, si_addr = 0\<rparr>)
          \<lparr>sim_insts := 10, sim_rbc := 499999\<rparr>"
  let ?c = "sim_ctx 7551 0x1002"
  let ?w = "(sim_world 7551 0x1002 \<lparr>si_signo = 29, si_code = 1, si_addr = 0\<rparr>)
          \<lparr>sim_insts := 11, sim_rbc := 500000\<rparr>"
  let ?d = "sim_ctx 7551 0x2000"
  let ?v = "sim_world 7551 0x2000 \<lparr>si_signo = 29, si_code = 1, si_addr = 0\<rparr>"
  have h1: "(handle_signal_loop_body sim_env ^^ 1) (?ci, ?wi) = (?c, ?w)"
    by (simp add: sim_body_step [where ip' = "0x1002"])
  have h2: "\<not> handle_signal_loop_cond sim_env (?c, ?w)"
    by (simp add: sim_cond)
  have h3': "handle_signal_loop_cond sim_env (?ci, ?wi)"
    by (simp add: sim_cond)
  have h3: "\<forall>j<1. handle_signal_loop_cond sim_env ((handle_signal_loop_body sim_env ^^ j) (?ci, ?wi))"
    using h3' by simp
  have h4: "signal_pending sim_env (status ?ci) = SIGIO"
    by (simp add: sim_defs SIGIO_def)
  have h5: "MAX_RECORD_INTERVAL sim_env \<le> read_rbc sim_env (hpc ?c) ?w"
    by (simp add: sim_defs)
  have g1: "(handle_signal_loop_body sim_env ^^ 0) (?d, ?v) = (?d, ?v)"
    by simp
  have g2: "\<not> handle_signal_loop_cond sim_env (?d, ?v)"
    by (simp add: sim_cond)
  have g3: "\<forall>j<0. handle_signal_loop_cond sim_env ((handle_signal_loop_body sim_env ^^ j) (?d, ?v))"
    by simp
  have g4: "signal_pending sim_env (status ?d) = SIGIO"
    by (simp add: sim_defs SIGIO_def)
  have g5: "read_rbc sim_env (hpc ?d) ?v < MAX_RECORD_INTERVAL sim_env"
    by (simp add: sim_defs)
  from handle_signal_sigio [OF h1 h2 h3 h4] h5
  have a: "handle_signal sim_env ?ci ?wi = Some (Inr (?c\<lparr>event := - 1026, child_sig := 0\<rparr>, ?w))"
    by (simp add: sim_env_def)
  from handle_signal_sigio [OF g1 g2 g3 g4] g5
  have b: "handle_signal sim_env ?d ?v = Some (record_signal sim_env SIGIO ?d ?v)"
    by simp
  show ?thesis by (intro conjI h1 h2 h3' h4 h5 a g1 g2 g4 g5 b)
qed

text \<open>
  C4 as stated fails for a tracee that never leaves the wrapper: with SIGIO pending and
  the budget reached, \<open>handle_signal\<close> does not return.
\<close>

theorem handle_signal_sigio_in_wrapper:
  "signal_pending spin_env (status (sim_ctx 7551 0x1000)) = SIGIO
   \<and> MAX_RECORD_INTERVAL spin_env \<le> read_rbc spin_env (hpc (sim_ctx 7551 0x1000))
        ((sim_world 7551 0x1000 \<lparr>si_signo = 29, si_code = 1, si_addr = 0\<rparr>)\<lparr>sim_rbc := 500000\<rparr>)
   \<and> handle_signal spin_env (sim_ctx 7551 0x1000)
        ((sim_world 7551 0x1000 \<lparr>si_signo = 29, si_code = 1, si_addr = 0\<rparr>)\<lparr>sim_rbc := 500000\<rparr>)
       = None"
proof -
  let ?d = "sim_ctx 7551 0x1000"
  let ?v = "(sim_world 7551 0x1000 \<lparr>si_signo = 29, si_code = 1, si_addr = 0\<rparr>)\<lparr>sim_rbc := 500000\<rparr>"
  have s: "signal_pending spin_env (status ?d) = SIGIO"
    by (simp add: spin_env_def sim_defs SIGIO_def)
  have m: "MAX_RECORD_INTERVAL spin_env \<le> read_rbc spin_env (hpc ?d) ?v"
    by (simp add: spin_env_def sim_defs)
  have "handle_signal_loop spin_env (?d, ?v) = None"
    by (rule spin_env_fixpoint) (simp_all add: sim_defs)
  then have n: "handle_signal spin_env ?d ?v = None"
    by (simp add: handle_signal_None)
  show ?thesis by (intro conjI s m n)
qed

text \<open>
  C6, as the code has it. When the pending signal is not SIGSEGV (no signal included):
  if it is not SIGTRAP either, \<open>try_handle_rdtsc\<close> and \<open>try_handle_shared_mmap_access\<close>
  both return 0 and leave the context and the world as they were; if it is SIGTRAP,
  the assertion \<open>sig != SIGTRAP\<close> at the head of each handler fails.
\<close>

theorem try_handle_not_segv:
  assumes "signal_pending E (status ctx) \<noteq> SIGSEGV"
  shows "(signal_pending E (status ctx) \<noteq> SIGTRAP \<longrightarrow>
            try_handle_rdtsc E ctx w = Inr (0, ctx, w)
          \<and> try_handle_shared_mmap_access E ctx w = Inr (0, ctx, w))
       \<and> (signal_pending E (status ctx) = SIGTRAP \<longrightarrow>
            try_handle_rdtsc E ctx w = Inl AssertionFailed
          \<and> try_handle_shared_mmap_access E ctx w = Inl AssertionFailed)"
  using assms by (simp add: try_handle_rdtsc_def try_handle_shared_mmap_access_def Let_def)

theorem try_handle_not_segv_witness:
  "signal_pending sim_env (status (sim_ctx 7551 0x2000)) \<noteq> SIGSEGV
   \<and> signal_pending sim_env (status (sim_ctx 7551 0x2000)) \<noteq> SIGTRAP
   \<and> try_handle_rdtsc sim_env (sim_ctx 7551 0x2000)
        (sim_world 7551 0x2000 \<lparr>si_signo = 29, si_code = 1, si_addr = 0\<rparr>)
       = Inr (0, sim_ctx 7551 0x2000, sim_world 7551 0x2000 \<lparr>si_signo = 29, si_code = 1, si_addr = 0\<rparr>)
   \<and> try_handle_shared_mmap_access sim_env (sim_ctx 7551 0x2000)
        (sim_world 7551 0x2000 \<lparr>si_signo = 29, si_code = 1, si_addr = 0\<rparr>)
       = Inr (0, sim_ctx 7551 0x2000, sim_world 7551 0x2000 \<lparr>si_signo = 29, si_code = 1, si_addr = 0\<rparr>)
   \<and> signal_pending sim_env (status (sim_ctx 0 0x2000)) \<noteq> SIGSEGV
   \<and> signal_pending sim_env (status (sim_ctx 0 0x2000)) \<noteq> SIGTRAP
   \<and> try_handle_rdtsc sim_env (sim_ctx 0 0x2000)
        (sim_world 0 0x2000 \<lparr>si_signo = 0, si_code = 0, si_addr = 0\<rparr>)
       = Inr (0, sim_ctx 0 0x2000, sim_world 0 0x2000 \<lparr>si_signo = 0, si_code = 0, si_addr = 0\<rparr>)
   \<and> signal_pending sim_env (status (sim_ctx 1407 0x2000)) = SIGTRAP
   \<and> try_handle_rdtsc sim_env (sim_ctx 1407 0x2000)
        (sim_world 1407 0x2000 \<lparr>si_signo = 5, si_code = 1, si_addr = 0\<rparr>) = Inl AssertionFailed"
proof -
  have h1: "signal_pending sim_env (status (sim_ctx 7551 0x2000)) \<noteq> SIGSEGV"
    and h2: "signal_pending sim_env (status (sim_ctx 7551 0x2000)) \<noteq> SIGTRAP"
    and h3: "signal_pending sim_env (status (sim_ctx 0 0x2000)) \<noteq> SIGSEGV"
    and h4: "signal_pending sim_env (status (sim_ctx 0 0x2000)) \<noteq> SIGTRAP"
    and h5: "signal_pending sim_env (status (sim_ctx 1407 0x2000)) \<noteq> SIGSEGV"
    and h6: "signal_pending sim_env (status (sim_ctx 1407 0x2000)) = SIGTRAP"
    by (simp_all add: sim_defs signal_numbers)
  note a = try_handle_not_segv [OF h1, of "sim_world 7551 0x2000 \<lparr>si_signo = 29, si_code = 1, si_addr = 0\<rparr>"]
  note b = try_handle_not_segv [OF h3, of "sim_world 0 0x2000 \<lparr>si_signo = 0, si_code = 0, si_addr = 0\<rparr>"]
  note c = try_handle_not_segv [OF h5, of "sim_world 1407 0x2000 \<lparr>si_signo = 5, si_code = 1, si_addr = 0\<rparr>"]
  from a h2 have a1: "try_handle_rdtsc sim_env (sim_ctx 7551 0x2000)
        (sim_world 7551 0x2000 \<lparr>si_signo = 29, si_code = 1, si_addr = 0\<rparr>)
       = Inr (0, sim_ctx 7551 0x2000, sim_world 7551 0x2000 \<lparr>si_signo = 29, si_code = 1, si_addr = 0\<rparr>)"
    and a2: "try_handle_shared_mmap_access sim_env (sim_ctx 7551 0x2000)
        (sim_world 7551 0x2000 \<lparr>si_signo = 29, si_code = 1, si_addr = 0\<rparr>)
       = Inr (0, sim_ctx 7551 0x2000, sim_world 7551 0x2000 \<lparr>si_signo = 29, si_code = 1, si_addr = 0\<rparr>)"
    by blast+
  from b h4 have b1: "try_handle_rdtsc sim_env (sim_ctx 0 0x2000)
        (sim_world 0 0x2000 \<lparr>si_signo = 0, si_code = 0, si_addr = 0\<rparr>)
       = Inr (0, sim_ctx 0 0x2000, sim_world 0 0x2000 \<lparr>si_signo = 0, si_code = 0, si_addr = 0\<rparr>)"
    by blast
  from c h6 have c1: "try_handle_rdtsc sim_env (sim_ctx 1407 0x2000)
        (sim_world 1407 0x2000 \<lparr>si_signo = 5, si_code = 1, si_addr = 0\<rparr>) = Inl AssertionFailed"
    by blast
  show ?thesis by (intro conjI h1 h2 a1 a2 h3 h4 b1 h6 c1)
qed

text \<open>
  C6 as stated fails for SIGTRAP: it is not SIGSEGV, and both handlers abort on their
  assertion instead of returning 0.
\<close>

theorem try_handle_sigtrap_aborts:
  "signal_pending sim_env (status (sim_ctx 1407 0x2000)) \<noteq> SIGSEGV
   \<and> try_handle_rdtsc sim_env (sim_ctx 1407 0x2000)
        (sim_world 1407 0x2000 \<lparr>si_signo = 5, si_code = 1, si_addr = 0\<rparr>) = Inl AssertionFailed
   \<and> try_handle_shared_mmap_access sim_env (sim_ctx 1407 0x2000)
        (sim_world 1407 0x2000 \<lparr>si_signo = 5, si_code = 1, si_addr = 0\<rparr>) = Inl AssertionFailed"
  by (simp add: try_handle_rdtsc_def try_handle_shared_mmap_access_def sim_defs signal_numbers)

text \<open>
  C8. With SIGSEGV pending and the faulting address outside every protected region,
  \<open>try_handle_shared_mmap_access\<close> returns 0 with the context (event, pending signal,
  register snapshot) and the world (the tracee's registers and memory) unchanged.
\<close>

theorem try_handle_shared_mmap_access_unprotected:
  assumes "signal_pending E (status ctx) = SIGSEGV"
    and "\<not> is_protected_map E ctx (si_addr (sys_ptrace_getsiginfo E (child_tid ctx) w)) w"
  shows "try_handle_shared_mmap_access E ctx w = Inr (0, ctx, w)"
  using assms by (simp add: try_handle_shared_mmap_access_def Let_def SIGSEGV_facts)

theorem try_handle_shared_mmap_access_unprotected_witness:
  "signal_pending sim_env (status (sim_ctx 2943 0x2000)) = SIGSEGV
   \<and> \<not> is_protected_map sim_env (sim_ctx 2943 0x2000)
        (si_addr (sys_ptrace_getsiginfo sim_env (child_tid (sim_ctx 2943 0x2000))
           (sim_world 2943 0x2000 \<lparr>si_signo = 11, si_code = 1, si_addr = 0x7000\<rparr>)))
        (sim_world 2943 0x2000 \<lparr>si_signo = 11, si_code = 1, si_addr = 0x7000\<rparr>)
   \<and> try_handle_shared_mmap_access sim_env (sim_ctx 2943 0x2000)
        (sim_world 2943 0x2000 \<lparr>si_signo = 11, si_code = 1, si_addr = 0x7000\<rparr>)
       = Inr (0, sim_ctx 2943 0x2000, sim_world 2943 0x2000 \<lparr>si_signo = 11, si_code = 1, si_addr = 0x7000\<rparr>)"
proof -
  have h1: "signal_pending sim_env (status (sim_ctx 2943 0x2000)) = SIGSEGV"
    by (simp add: sim_defs SIGSEGV_def)
  have h2: "\<not> is_protected_map sim_env (sim_ctx 2943 0x2000)
        (si_addr (sys_ptrace_getsiginfo sim_env (child_tid (sim_ctx 2943 0x2000))
           (sim_world 2943 0x2000 \<lparr>si_signo = 11, si_code = 1, si_addr = 0x7000\<rparr>)))
        (sim_world 2943 0x2000 \<lparr>si_signo = 11, si_code = 1, si_addr = 0x7000\<rparr>)"
    by (simp add: sim_defs)
  show ?thesis
    by (intro conjI h1 h2 try_handle_shared_mmap_access_unprotected [OF h1 h2])
qed

text \<open>
  C5, as the code has it. Let the loop leave \<open>(ctx, w)\<close>. When the pending signal
  read at entry is positive and \<open>handle_signal\<close> returns, the event of the returned
  context is one of the outcome tags for that signal. When the pending signal is zero
  or negative, \<open>handle_signal\<close> returns the state the loop left, and the event is the
  one the context had at entry: \<open>record_signal\<close> returns at its guard \<open>sig <= 0\<close>
  before any assignment.
\<close>

theorem handle_signal_event:
  assumes "handle_signal_loop E (ctx0, w0) = Some (ctx, w)"
  shows "(0 < signal_pending E (status ctx0) \<longrightarrow>
            (\<forall>ctx' w'. handle_signal E ctx0 w0 = Some (Inr (ctx', w')) \<longrightarrow>
               event ctx' \<in> outcome_tags E (signal_pending E (status ctx0))))
       \<and> (signal_pending E (status ctx0) \<le> 0 \<longrightarrow>
            handle_signal E ctx0 w0 = Some (Inr (ctx, w)) \<and> event ctx = event ctx0)"
proof (intro conjI impI allI)
  fix ctx' w'
  assume pos: "0 < signal_pending E (status ctx0)"
    and ret: "handle_signal E ctx0 w0 = Some (Inr (ctx', w'))"
  let ?sig = "signal_pending E (status ctx0)"
  have rec: "event c' \<in> outcome_tags E ?sig" if "record_signal E ?sig c v = Inr (c', v')" for c v c' v'
    using record_signal_fields [OF pos that] by (auto simp add: outcome_tags_def)
  show "event ctx' \<in> outcome_tags E ?sig"
  proof (cases "?sig = SIGSEGV")
    case False
    with ret assms pos show ?thesis
      by (auto simp add: handle_signal_def Let_def outcome_tags_def split: if_splits
          dest: record_signal_fields [rotated])
  next
    case True
    from try_handle_rdtsc_cases [of E ctx w] try_handle_shared_mmap_access_cases [of E ctx w]
    show ?thesis using ret assms pos True
      by (auto simp add: handle_signal_def Let_def outcome_tags_def split: if_splits
          dest: record_signal_fields [rotated])
  qed
next
  assume "signal_pending E (status ctx0) \<le> 0"
  then show "handle_signal E ctx0 w0 = Some (Inr (ctx, w))"
    using assms by (simp add: handle_signal_def record_signal_nosig signal_numbers)
next
  from handle_signal_loop_fields [OF assms] show "event ctx = event ctx0" by simp
qed

theorem handle_signal_event_witness:
  "handle_signal_loop sim_env
       (sim_ctx 1151 0x2000, sim_world 1407 0x2000 \<lparr>si_signo = 4, si_code = 1, si_addr = 0\<rparr>)
     = Some (sim_ctx 1151 0x2000, sim_world 1407 0x2000 \<lparr>si_signo = 4, si_code = 1, si_addr = 0\<rparr>)
   \<and> 0 < signal_pending sim_env (status (sim_ctx 1151 0x2000))
   \<and> handle_signal sim_env (sim_ctx 1151 0x2000)
        (sim_world 1407 0x2000 \<lparr>si_signo = 4, si_code = 1, si_addr = 0\<rparr>)
       = Some (Inr ((sim_ctx 1151 0x2000)\<lparr>child_sig := 4, event := - 132, status := 1407\<rparr>,
          (sim_world 1407 0x2000 \<lparr>si_signo = 4, si_code = 1, si_addr = 0\<rparr>)
            \<lparr>sim_regs := (regs_at 0x2000)\<lparr>eip := 0x3000, esp := 0x7d24\<rparr>,
             sim_insts := 0, sim_rbc := 0,
             sim_log := [LogEvent (- 132) 1, LogData (- 132) 1024 0x7d24]\<rparr>))
   \<and> event ((sim_ctx 1151 0x2000)\<lparr>child_sig := 4, event := - 132, status := 1407\<rparr>)
        \<in> outcome_tags sim_env (signal_pending sim_env (status (sim_ctx 1151 0x2000)))
   \<and> handle_signal_loop sim_env
       (sim_ctx 0 0x2000, sim_world 0 0x2000 \<lparr>si_signo = 0, si_code = 0, si_addr = 0\<rparr>)
     = Some (sim_ctx 0 0x2000, sim_world 0 0x2000 \<lparr>si_signo = 0, si_code = 0, si_addr = 0\<rparr>)
   \<and> signal_pending sim_env (status (sim_ctx 0 0x2000)) \<le> 0
   \<and> handle_signal sim_env (sim_ctx 0 0x2000)
        (sim_world 0 0x2000 \<lparr>si_signo = 0, si_code = 0, si_addr = 0\<rparr>)
       = Some (Inr (sim_ctx 0 0x2000, sim_world 0 0x2000 \<lparr>si_signo = 0, si_code = 0, si_addr = 0\<rparr>))"
proof -
  let ?c = "sim_ctx 1151 0x2000"
  let ?w = "sim_world 1407 0x2000 \<lparr>si_signo = 4, si_code = 1, si_addr = 0\<rparr>"
  let ?d = "sim_ctx 0 0x2000"
  let ?v = "sim_world 0 0x2000 \<lparr>si_signo = 0, si_code = 0, si_addr = 0\<rparr>"
  have l: "handle_signal_loop sim_env (?c, ?w) = Some (?c, ?w)"
    by (rule sim_loop_out) simp
  have l': "handle_signal_loop sim_env (?d, ?v) = Some (?d, ?v)"
    by (rule sim_loop_out) simp
  have p: "0 < signal_pending sim_env (status ?c)" by (simp add: sim_defs)
  have n: "signal_pending sim_env (status ?d) \<le> 0" by (simp add: sim_defs)
  note r = sim_handle_sigill
  from handle_signal_event [OF l] p r
  have t: "event (?c\<lparr>child_sig := 4, event := - 132, status := 1407\<rparr>)
        \<in> outcome_tags sim_env (signal_pending sim_env (status ?c))"
    by blast
  from handle_signal_event [OF l'] n
  have u: "handle_signal sim_env ?d ?v = Some (Inr (?d, ?v))"
    by blast
  show ?thesis by (intro conjI l p r t l' n u)
qed

text \<open>
  C5 as stated fails when no signal is pending: \<open>handle_signal\<close> returns the context
  it was given, whose event (left from an earlier stop) is none of the outcome tags.
\<close>

theorem handle_signal_no_signal_no_event:
  "signal_pending sim_env (status (sim_ctx 0 0x2000)) = 0
   \<and> handle_signal sim_env (sim_ctx 0 0x2000)
        (sim_world 0 0x2000 \<lparr>si_signo = 0, si_code = 0, si_addr = 0\<rparr>)
       = Some (Inr (sim_ctx 0 0x2000, sim_world 0 0x2000 \<lparr>si_signo = 0, si_code = 0, si_addr = 0\<rparr>))
   \<and> event (sim_ctx 0 0x2000) = 77
   \<and> event (sim_ctx 0 0x2000) \<notin> outcome_tags sim_env (signal_pending sim_env (status (sim_ctx 0 0x2000)))"
proof -
  have s: "signal_pending sim_env (status (sim_ctx 0 0x2000)) = 0"
    by (simp add: sim_defs)
  have h: "handle_signal sim_env (sim_ctx 0 0x2000)
        (sim_world 0 0x2000 \<lparr>si_signo = 0, si_code = 0, si_addr = 0\<rparr>)
       = Some (Inr (sim_ctx 0 0x2000, sim_world 0 0x2000 \<lparr>si_signo = 0, si_code = 0, si_addr = 0\<rparr>))"
    by (simp add: handle_signal_def s sim_loop_out record_signal_nosig signal_numbers)
  have e: "event (sim_ctx 0 0x2000) = 77" by (simp add: sim_defs)
  have n: "event (sim_ctx 0 0x2000) \<notin> outcome_tags sim_env (signal_pending sim_env (status (sim_ctx 0 0x2000)))"
    unfolding s e by (simp add: outcome_tags_def sim_env_def)
  show ?thesis by (intro conjI s h e n)
qed

text \<open>
  C7. For a positive signal, let \<open>ctx2\<close> be the context with the signal and the event
  recorded, \<open>w2\<close> the world after \<open>record_event\<close> and \<open>reset_hpc\<close>, with the counter
  reading zero there (the assertion holds), and \<open>(st, w4)\<close> the result of the wait that
  follows the single-step with the signal. If \<open>read_insts\<close> is zero in \<open>w4\<close>,
  \<open>record_signal\<close> returns after \<open>record_child_data\<close> with the signal event, 1024
  bytes and the stack pointer read in \<open>w4\<close>; if it is nonzero, the same call is made
  with size 0.
\<close>

theorem record_signal_frame:
  assumes "0 < sig"
    and "ctx2 = ctx\<lparr>child_sig := sig,
                     event := (if is_deterministic_signal
                                    (sys_ptrace_getsiginfo E (child_tid ctx) w) \<noteq> 0
                               then - (sig OR DET_SIGNAL_BIT E) else - sig)\<rparr>"
    and "w2 = reset_hpc E ctx2 (MAX_RECORD_INTERVAL E)
                (record_event E ctx2 (STATE_SYSCALL_ENTRY E) w)"
    and "read_insts E (hpc ctx) w2 = 0"
    and "sys_waitpid E (child_tid ctx) (sys_ptrace_singlestep_sig E (child_tid ctx) sig w2)
           = (st, w4)"
  shows "(read_insts E (hpc ctx) w4 = 0 \<longrightarrow>
            record_signal E sig ctx w =
              Inr (ctx2\<lparr>status := st\<rparr>,
                   record_child_data E (ctx2\<lparr>status := st\<rparr>) (event ctx2) 1024
                     (esp (read_child_registers E (child_tid ctx) w4)) w4))
       \<and> (read_insts E (hpc ctx) w4 \<noteq> 0 \<longrightarrow>
            record_signal E sig ctx w =
              Inr (ctx2\<lparr>status := st\<rparr>,
                   record_child_data E (ctx2\<lparr>status := st\<rparr>) (event ctx2) 0
                     (esp (read_child_registers E (child_tid ctx) w4)) w4))"
proof (cases "is_deterministic_signal (sys_ptrace_getsiginfo E (child_tid ctx) w) \<noteq> 0")
  case True
  with assms show ?thesis by (simp add: record_signal_def Let_def)
next
  case False
  with assms show ?thesis by (simp add: record_signal_def Let_def)
qed

theorem record_signal_frame_witness:
  "(0::int) < 4
   \<and> read_insts sim_env (hpc (sim_ctx 1151 0x2000))
        ((sim_world 1407 0x2000 \<lparr>si_signo = 4, si_code = 1, si_addr = 0\<rparr>)
           \<lparr>sim_log := [LogEvent (- 132) 1], sim_insts := 0, sim_rbc := 0\<rparr>) = 0
   \<and> read_insts sim_env (hpc (sim_ctx 1151 0x2000))
        ((sim_world 1407 0x2000 \<lparr>si_signo = 4, si_code = 1, si_addr = 0\<rparr>)
           \<lparr>sim_log := [LogEvent (- 132) 1], sim_insts := 0, sim_rbc := 0,
            sim_regs := (regs_at 0x2000)\<lparr>eip := 0x3000, esp := 0x7d24\<rparr>\<rparr>) = 0
   \<and> record_signal sim_env 4 (sim_ctx 1151 0x2000)
        (sim_world 1407 0x2000 \<lparr>si_signo = 4, si_code = 1, si_addr = 0\<rparr>)
       = Inr ((sim_ctx 1151 0x2000)\<lparr>child_sig := 4, event := - 132, status := 1407\<rparr>,
            (sim_world 1407 0x2000 \<lparr>si_signo = 4, si_code = 1, si_addr = 0\<rparr>)
              \<lparr>sim_regs := (regs_at 0x2000)\<lparr>eip := 0x3000, esp := 0x7d24\<rparr>,
               sim_insts := 0, sim_rbc := 0,
               sim_log := [LogEvent (- 132) 1, LogData (- 132) 1024 0x7d24]\<rparr>)
   \<and> read_insts sim_env (hpc (sim_ctx 1151 0x2000))
        ((sim_world 1407 0x2000 \<lparr>si_signo = 4, si_code = 1, si_addr = 0\<rparr>)
           \<lparr>sim_handler := False, sim_log := [LogEvent (- 132) 1], sim_insts := 1, sim_rbc := 1,
            sim_regs := (regs_at 0x2000)\<lparr>eip := 0x2001\<rparr>\<rparr>) \<noteq> 0
   \<and> record_signal sim_env 4 (sim_ctx 1151 0x2000)
        ((sim_world 1407 0x2000 \<lparr>si_signo = 4, si_code = 1, si_addr = 0\<rparr>)\<lparr>sim_handler := False\<rparr>)
       = Inr ((sim_ctx 1151 0x2000)\<lparr>child_sig := 4, event := - 132, status := 1407\<rparr>,
            (sim_world 1407 0x2000 \<lparr>si_signo = 4, si_code = 1, si_addr = 0\<rparr>)
              \<lparr>sim_handler := False, sim_regs := (regs_at 0x2000)\<lparr>eip := 0x2001\<rparr>,
               sim_insts := 1, sim_rbc := 1,
               sim_log := [LogEvent (- 132) 1, LogData (- 132) 0 0x8000]\<rparr>)"
proof -
  let ?c = "sim_ctx 1151 0x2000"
  let ?w = "sim_world 1407 0x2000 \<lparr>si_signo = 4, si_code = 1, si_addr = 0\<rparr>"
  let ?c2 = "?c\<lparr>child_sig := 4, event := - 132\<rparr>"
  let ?w2 = "?w\<lparr>sim_log := [LogEvent (- 132) 1], sim_insts := 0, sim_rbc := 0\<rparr>"
  let ?w4 = "?w\<lparr>sim_log := [LogEvent (- 132) 1], sim_insts := 0, sim_rbc := 0,
            sim_regs := (regs_at 0x2000)\<lparr>eip := 0x3000, esp := 0x7d24\<rparr>\<rparr>"
  let ?v = "?w\<lparr>sim_handler := False\<rparr>"
  let ?v2 = "?v\<lparr>sim_log := [LogEvent (- 132) 1], sim_insts := 0, sim_rbc := 0\<rparr>"
  let ?v4 = "?w\<lparr>sim_handler := False, sim_log := [LogEvent (- 132) 1], sim_insts := 1, sim_rbc := 1,
            sim_regs := (regs_at 0x2000)\<lparr>eip := 0x2001\<rparr>\<rparr>"
  have p: "(0::int) < 4" by simp
  have c2: "?c2 = ?c\<lparr>child_sig := 4,
       event := (if is_deterministic_signal (sys_ptrace_getsiginfo sim_env (child_tid ?c) ?w) \<noteq> 0
                 then - (4 OR DET_SIGNAL_BIT sim_env) else - 4)\<rparr>"
    by (simp add: is_deterministic_signal_def sim_defs signal_numbers)
  have c2': "?c2 = ?c\<lparr>child_sig := 4,
       event := (if is_deterministic_signal (sys_ptrace_getsiginfo sim_env (child_tid ?c) ?v) \<noteq> 0
                 then - (4 OR DET_SIGNAL_BIT sim_env) else - 4)\<rparr>"
    by (simp add: is_deterministic_signal_def sim_defs signal_numbers)
  have w2: "?w2 = reset_hpc sim_env ?c2 (MAX_RECORD_INTERVAL sim_env)
                (record_event sim_env ?c2 (STATE_SYSCALL_ENTRY sim_env) ?w)"
    by (simp add: sim_defs)
  have v2: "?v2 = reset_hpc sim_env ?c2 (MAX_RECORD_INTERVAL sim_env)
                (record_event sim_env ?c2 (STATE_SYSCALL_ENTRY sim_env) ?v)"
    by (simp add: sim_defs)
  have a: "read_insts sim_env (hpc ?c) ?w2 = 0" by (simp add: sim_defs)
  have a': "read_insts sim_env (hpc ?c) ?v2 = 0" by (simp add: sim_defs)
  have st: "sys_waitpid sim_env (child_tid ?c) (sys_ptrace_singlestep_sig sim_env (child_tid ?c) 4 ?w2)
      = (1407, ?w4)"
    by (simp add: sim_defs)
  have st': "sys_waitpid sim_env (child_tid ?c) (sys_ptrace_singlestep_sig sim_env (child_tid ?c) 4 ?v2)
      = (1407, ?v4)"
    by (simp add: sim_defs)
  have z: "read_insts sim_env (hpc ?c) ?w4 = 0" by (simp add: sim_defs)
  have nz: "read_insts sim_env (hpc ?c) ?v4 \<noteq> 0" by (simp add: sim_defs)
  from record_signal_frame [OF p c2 w2 a st] z
  have r: "record_signal sim_env 4 ?c ?w
       = Inr (?c\<lparr>child_sig := 4, event := - 132, status := 1407\<rparr>,
            ?w\<lparr>sim_regs := (regs_at 0x2000)\<lparr>eip := 0x3000, esp := 0x7d24\<rparr>,
               sim_insts := 0, sim_rbc := 0,
               sim_log := [LogEvent (- 132) 1, LogData (- 132) 1024 0x7d24]\<rparr>)"
    by (simp add: sim_defs)
  from record_signal_frame [OF p c2' v2 a' st'] nz
  have r': "record_signal sim_env 4 ?c ?v
       = Inr (?c\<lparr>child_sig := 4, event := - 132, status := 1407\<rparr>,
            ?w\<lparr>sim_handler := False, sim_regs := (regs_at 0x2000)\<lparr>eip := 0x2001\<rparr>,
               sim_insts := 1, sim_rbc := 1,
               sim_log := [LogEvent (- 132) 1, LogData (- 132) 0 0x8000]\<rparr>)"
    by (simp add: sim_defs)
  show ?thesis by (intro conjI p a z r nz r')
qed

text \<open>
  C9, as the code has it. If the loop condition is false after some number \<open>n\<close> of
  passes through the loop body, the loop ends after \<open>k \<le> n\<close> passes, where \<open>k\<close> is
  the first count at which the instruction pointer is outside the wrapper; the state it
  leaves is outside the wrapper, and \<open>handle_signal\<close> returns what the \<open>switch\<close> and
  \<open>record_signal\<close> give for the signal read at entry and that state. If the condition
  is true after every number of passes, the loop never ends and \<open>handle_signal\<close> does
  not return. Each pass single-steps with signal 0, waits, stores the status and
  refreshes \<open>child_regs\<close>.
\<close>

theorem handle_signal_loop_terminates:
  "(\<not> handle_signal_loop_cond E ((handle_signal_loop_body E ^^ n) (ctx0, w0)) \<longrightarrow>
      (\<exists>k\<le>n. handle_signal_loop E (ctx0, w0) = Some ((handle_signal_loop_body E ^^ k) (ctx0, w0))
         \<and> \<not> handle_signal_loop_cond E ((handle_signal_loop_body E ^^ k) (ctx0, w0))
         \<and> (\<forall>j<k. handle_signal_loop_cond E ((handle_signal_loop_body E ^^ j) (ctx0, w0)))
         \<and> handle_signal E ctx0 w0 =
             Some (handle_signal_switch E (signal_pending E (status ctx0))
                     (fst ((handle_signal_loop_body E ^^ k) (ctx0, w0)))
                     (snd ((handle_signal_loop_body E ^^ k) (ctx0, w0))))))
   \<and> ((\<forall>m. handle_signal_loop_cond E ((handle_signal_loop_body E ^^ m) (ctx0, w0))) \<longrightarrow>
        handle_signal_loop E (ctx0, w0) = None \<and> handle_signal E ctx0 w0 = None)
   \<and> (\<forall>ctx w. handle_signal_loop_body E (ctx, w) =
        (ctx\<lparr>status := fst (sys_waitpid E (child_tid ctx)
                             (sys_ptrace_singlestep_sig E (child_tid ctx) 0 w)),
             child_regs := read_child_registers E (child_tid ctx)
                (snd (sys_waitpid E (child_tid ctx)
                       (sys_ptrace_singlestep_sig E (child_tid ctx) 0 w)))\<rparr>,
         snd (sys_waitpid E (child_tid ctx)
                (sys_ptrace_singlestep_sig E (child_tid ctx) 0 w))))"
proof (intro conjI impI)
  assume "\<not> handle_signal_loop_cond E ((handle_signal_loop_body E ^^ n) (ctx0, w0))"
  from handle_signal_loop_exits [OF this] obtain k where k: "k \<le> n"
    "handle_signal_loop E (ctx0, w0) = Some ((handle_signal_loop_body E ^^ k) (ctx0, w0))"
    "\<not> handle_signal_loop_cond E ((handle_signal_loop_body E ^^ k) (ctx0, w0))"
    "\<forall>j<k. handle_signal_loop_cond E ((handle_signal_loop_body E ^^ j) (ctx0, w0))"
    by blast
  from k(2) have "handle_signal_loop E (ctx0, w0) =
      Some (fst ((handle_signal_loop_body E ^^ k) (ctx0, w0)),
            snd ((handle_signal_loop_body E ^^ k) (ctx0, w0)))"
    by simp
  from handle_signal_after_loop [OF this] k
  show "\<exists>k\<le>n. handle_signal_loop E (ctx0, w0) = Some ((handle_signal_loop_body E ^^ k) (ctx0, w0))
         \<and> \<not> handle_signal_loop_cond E ((handle_signal_loop_body E ^^ k) (ctx0, w0))
         \<and> (\<forall>j<k. handle_signal_loop_cond E ((handle_signal_loop_body E ^^ j) (ctx0, w0)))
         \<and> handle_signal E ctx0 w0 =
             Some (handle_signal_switch E (signal_pending E (status ctx0))
                     (fst ((handle_signal_loop_body E ^^ k) (ctx0, w0)))
                     (snd ((handle_signal_loop_body E ^^ k) (ctx0, w0))))"
    by blast
next
  assume a: "\<forall>m. handle_signal_loop_cond E ((handle_signal_loop_body E ^^ m) (ctx0, w0))"
  from handle_signal_loop_diverges [OF a]
  show "handle_signal_loop E (ctx0, w0) = None" .
  then show "handle_signal E ctx0 w0 = None" by (simp add: handle_signal_None)
next
  show "\<forall>ctx w. handle_signal_loop_body E (ctx, w) =
        (ctx\<lparr>status := fst (sys_waitpid E (child_tid ctx)
                             (sys_ptrace_singlestep_sig E (child_tid ctx) 0 w)),
             child_regs := read_child_registers E (child_tid ctx)
                (snd (sys_waitpid E (child_tid ctx)
                       (sys_ptrace_singlestep_sig E (child_tid ctx) 0 w)))\<rparr>,
         snd (sys_waitpid E (child_tid ctx)
                (sys_ptrace_singlestep_sig E (child_tid ctx) 0 w)))"
    by (simp add: handle_signal_loop_body_def Let_def split: prod.splits)
qed

theorem handle_signal_loop_terminates_witness:
  "\<not> handle_signal_loop_cond sim_env ((handle_signal_loop_body sim_env ^^ 2)
       (sim_ctx 2943 0x1000, sim_world 2943 0x1000 \<lparr>si_signo = 11, si_code = 1, si_addr = 0\<rparr>))
   \<and> handle_signal_loop sim_env
       (sim_ctx 2943 0x1000, sim_world 2943 0x1000 \<lparr>si_signo = 11, si_code = 1, si_addr = 0\<rparr>)
     = Some (sim_ctx 2943 0x1002,
        (sim_world 2943 0x1002 \<lparr>si_signo = 11, si_code = 1, si_addr = 0\<rparr>)\<lparr>sim_insts := 12, sim_rbc := 12\<rparr>)
   \<and> handle_signal sim_env (sim_ctx 2943 0x1000)
        (sim_world 2943 0x1000 \<lparr>si_signo = 11, si_code = 1, si_addr = 0\<rparr>)
     = Some (handle_signal_switch sim_env (signal_pending sim_env (status (sim_ctx 2943 0x1000)))
         (sim_ctx 2943 0x1002)
         ((sim_world 2943 0x1002 \<lparr>si_signo = 11, si_code = 1, si_addr = 0\<rparr>)\<lparr>sim_insts := 12, sim_rbc := 12\<rparr>))
   \<and> (\<forall>m. handle_signal_loop_cond spin_env ((handle_signal_loop_body spin_env ^^ m)
       (sim_ctx 2943 0x1000, sim_world 2943 0x1000 \<lparr>si_signo = 11, si_code = 1, si_addr = 0\<rparr>)))
   \<and> handle_signal_loop spin_env
       (sim_ctx 2943 0x1000, sim_world 2943 0x1000 \<lparr>si_signo = 11, si_code = 1, si_addr = 0\<rparr>) = None
   \<and> handle_signal spin_env (sim_ctx 2943 0x1000)
        (sim_world 2943 0x1000 \<lparr>si_signo = 11, si_code = 1, si_addr = 0\<rparr>) = None"
proof -
  let ?s = "(sim_ctx 2943 0x1000, sim_world 2943 0x1000 \<lparr>si_signo = 11, si_code = 1, si_addr = 0\<rparr>)"
  let ?b = "handle_signal_loop_body sim_env"
  let ?e = "(sim_ctx 2943 0x1002,
        (sim_world 2943 0x1002 \<lparr>si_signo = 11, si_code = 1, si_addr = 0\<rparr>)\<lparr>sim_insts := 12, sim_rbc := 12\<rparr>)"
  have h: "\<not> handle_signal_loop_cond sim_env ((?b ^^ 2) ?s)"
    by (simp only: sim_body_twice sim_cond) simp
  have c0: "handle_signal_loop_cond sim_env ((?b ^^ 0) ?s)"
    by (simp add: sim_cond)
  have c1: "handle_signal_loop_cond sim_env ((?b ^^ 1) ?s)"
    by (simp only: sim_body_once sim_cond) simp
  from handle_signal_loop_terminates [of sim_env 2 "sim_ctx 2943 0x1000"
      "sim_world 2943 0x1000 \<lparr>si_signo = 11, si_code = 1, si_addr = 0\<rparr>"] h
  obtain k where k: "k \<le> 2"
    "handle_signal_loop sim_env ?s = Some ((?b ^^ k) ?s)"
    "\<not> handle_signal_loop_cond sim_env ((?b ^^ k) ?s)"
    "handle_signal sim_env (sim_ctx 2943 0x1000)
        (sim_world 2943 0x1000 \<lparr>si_signo = 11, si_code = 1, si_addr = 0\<rparr>)
     = Some (handle_signal_switch sim_env (signal_pending sim_env (status (sim_ctx 2943 0x1000)))
         (fst ((?b ^^ k) ?s)) (snd ((?b ^^ k) ?s)))"
    by blast
  have "k \<noteq> 0" using k(3) c0 by (intro notI) simp
  moreover have "k \<noteq> 1" using k(3) c1 by (intro notI) simp
  ultimately have k2: "k = 2" using k(1) by arith
  have e: "(?b ^^ 2) ?s = ?e" by (rule sim_body_twice)
  from k(2) have l: "handle_signal_loop sim_env ?s = Some ?e"
    unfolding k2 e .
  from k(4) have r: "handle_signal sim_env (sim_ctx 2943 0x1000)
        (sim_world 2943 0x1000 \<lparr>si_signo = 11, si_code = 1, si_addr = 0\<rparr>)
     = Some (handle_signal_switch sim_env (signal_pending sim_env (status (sim_ctx 2943 0x1000)))
         (sim_ctx 2943 0x1002)
         ((sim_world 2943 0x1002 \<lparr>si_signo = 11, si_code = 1, si_addr = 0\<rparr>)\<lparr>sim_insts := 12, sim_rbc := 12\<rparr>))"
    unfolding k2 e by simp
  have sp: "\<forall>m. handle_signal_loop_cond spin_env ((handle_signal_loop_body spin_env ^^ m) ?s)"
  proof
    fix m
    have "(handle_signal_loop_body spin_env ^^ m) ?s = ?s"
      by (induction m) (simp_all add: spin_body)
    then show "handle_signal_loop_cond spin_env ((handle_signal_loop_body spin_env ^^ m) ?s)"
      by (simp add: spin_cond)
  qed
  from handle_signal_loop_terminates [of spin_env 0 "sim_ctx 2943 0x1000"
      "sim_world 2943 0x1000 \<lparr>si_signo = 11, si_code = 1, si_addr = 0\<rparr>"] sp
  have n1: "handle_signal_loop spin_env ?s = None"
    and n2: "handle_signal spin_env (sim_ctx 2943 0x1000)
        (sim_world 2943 0x1000 \<lparr>si_signo = 11, si_code = 1, si_addr = 0\<rparr>) = None"
    by blast+
  show ?thesis by (intro conjI h l r sp n1 n2)
qed

text \<open>
  C9 as stated fails: for a tracee whose instruction pointer stays in the wrapper,
  the loop never ends and \<open>handle_signal\<close> does not return.
\<close>

theorem handle_signal_spinning_tracee:
  "handle_signal_loop_cond spin_env
     (sim_ctx 2943 0x1000, sim_world 2943 0x1000 \<lparr>si_signo = 11, si_code = 1, si_addr = 0\<rparr>)
   \<and> handle_signal_loop spin_env
     (sim_ctx 2943 0x1000, sim_world 2943 0x1000 \<lparr>si_signo = 11, si_code = 1, si_addr = 0\<rparr>) = None
   \<and> handle_signal spin_env (sim_ctx 2943 0x1000)
       (sim_world 2943 0x1000 \<lparr>si_signo = 11, si_code = 1, si_addr = 0\<rparr>) = None"
  by (simp add: spin_cond spin_loop handle_signal_None)

text \<open>
  C10. Let the loop leave \<open>(ctx, w)\<close>, the pending signal read at entry be positive
  and \<open>handle_signal\<close> return \<open>ctx'\<close>. If the stop was resolved neither as a
  synthetic fault nor as a time-slice expiry, \<open>child_sig ctx'\<close> is the signal number,
  hence nonzero; if it was resolved as one of the two, \<open>child_sig ctx'\<close> is 0.
\<close>

theorem handle_signal_child_sig:
  assumes "handle_signal_loop E (ctx0, w0) = Some (ctx, w)"
    and "0 < signal_pending E (status ctx0)"
    and "handle_signal E ctx0 w0 = Some (Inr (ctx', w'))"
  shows "(\<not> resolved_synthetic E (signal_pending E (status ctx0)) ctx w
          \<and> \<not> resolved_sched E (signal_pending E (status ctx0)) ctx w \<longrightarrow>
            child_sig ctx' = signal_pending E (status ctx0) \<and> child_sig ctx' \<noteq> 0)
       \<and> (resolved_synthetic E (signal_pending E (status ctx0)) ctx w
          \<or> resolved_sched E (signal_pending E (status ctx0)) ctx w \<longrightarrow>
            child_sig ctx' = 0)"
proof -
  let ?sig = "signal_pending E (status ctx0)"
  have rec: "child_sig c' = ?sig" if "record_signal E ?sig c v = Inr (c', v')" for c v c' v'
    using record_signal_fields [OF assms(2) that] by simp
  show ?thesis
  proof (cases "?sig = SIGSEGV")
    case False
    with assms show ?thesis
      by (auto simp add: handle_signal_def Let_def resolved_synthetic_def resolved_sched_def
          split: if_splits dest: record_signal_fields [rotated])
  next
    case True
    from try_handle_rdtsc_cases [of E ctx w] try_handle_shared_mmap_access_cases [of E ctx w]
    show ?thesis using assms True
      by (auto simp add: handle_signal_def Let_def resolved_synthetic_def resolved_sched_def
          SIGSEGV_facts SIGSEGV_nonzero split: if_splits
          dest!: record_signal_fields [OF SIGSEGV_facts(2)])
  qed
qed

theorem handle_signal_child_sig_witness:
  "handle_signal_loop sim_env
       (sim_ctx 1151 0x2000, sim_world 1407 0x2000 \<lparr>si_signo = 4, si_code = 1, si_addr = 0\<rparr>)
     = Some (sim_ctx 1151 0x2000, sim_world 1407 0x2000 \<lparr>si_signo = 4, si_code = 1, si_addr = 0\<rparr>)
   \<and> 0 < signal_pending sim_env (status (sim_ctx 1151 0x2000))
   \<and> handle_signal sim_env (sim_ctx 1151 0x2000)
        (sim_world 1407 0x2000 \<lparr>si_signo = 4, si_code = 1, si_addr = 0\<rparr>)
       = Some (Inr ((sim_ctx 1151 0x2000)\<lparr>child_sig := 4, event := - 132, status := 1407\<rparr>,
          (sim_world 1407 0x2000 \<lparr>si_signo = 4, si_code = 1, si_addr = 0\<rparr>)
            \<lparr>sim_regs := (regs_at 0x2000)\<lparr>eip := 0x3000, esp := 0x7d24\<rparr>,
             sim_insts := 0, sim_rbc := 0,
             sim_log := [LogEvent (- 132) 1, LogData (- 132) 1024 0x7d24]\<rparr>))
   \<and> \<not> resolved_synthetic sim_env (signal_pending sim_env (status (sim_ctx 1151 0x2000)))
         (sim_ctx 1151 0x2000) (sim_world 1407 0x2000 \<lparr>si_signo = 4, si_code = 1, si_addr = 0\<rparr>)
   \<and> \<not> resolved_sched sim_env (signal_pending sim_env (status (sim_ctx 1151 0x2000)))
         (sim_ctx 1151 0x2000) (sim_world 1407 0x2000 \<lparr>si_signo = 4, si_code = 1, si_addr = 0\<rparr>)
   \<and> child_sig ((sim_ctx 1151 0x2000)\<lparr>child_sig := 4, event := - 132, status := 1407\<rparr>)
       = signal_pending sim_env (status (sim_ctx 1151 0x2000))
   \<and> child_sig ((sim_ctx 1151 0x2000)\<lparr>child_sig := 4, event := - 132, status := 1407\<rparr>) \<noteq> 0
   \<and> handle_signal_loop sim_env
       (sim_ctx 7551 0x2000,
        (sim_world 7551 0x2000 \<lparr>si_signo = 29, si_code = 1, si_addr = 0\<rparr>)\<lparr>sim_rbc := 500000\<rparr>)
     = Some (sim_ctx 7551 0x2000,
        (sim_world 7551 0x2000 \<lparr>si_signo = 29, si_code = 1, si_addr = 0\<rparr>)\<lparr>sim_rbc := 500000\<rparr>)
   \<and> 0 < signal_pending sim_env (status (sim_ctx 7551 0x2000))
   \<and> handle_signal sim_env (sim_ctx 7551 0x2000)
        ((sim_world 7551 0x2000 \<lparr>si_signo = 29, si_code = 1, si_addr = 0\<rparr>)\<lparr>sim_rbc := 500000\<rparr>)
       = Some (Inr ((sim_ctx 7551 0x2000)\<lparr>event := - 1026, child_sig := 0\<rparr>,
           (sim_world 7551 0x2000 \<lparr>si_signo = 29, si_code = 1, si_addr = 0\<rparr>)\<lparr>sim_rbc := 500000\<rparr>))
   \<and> resolved_sched sim_env (signal_pending sim_env (status (sim_ctx 7551 0x2000)))
         (sim_ctx 7551 0x2000)
         ((sim_world 7551 0x2000 \<lparr>si_signo = 29, si_code = 1, si_addr = 0\<rparr>)\<lparr>sim_rbc := 500000\<rparr>)
   \<and> child_sig ((sim_ctx 7551 0x2000)\<lparr>event := - 1026, child_sig := 0\<rparr>) = 0"
proof -
  let ?c = "sim_ctx 1151 0x2000"
  let ?w = "sim_world 1407 0x2000 \<lparr>si_signo = 4, si_code = 1, si_addr = 0\<rparr>"
  let ?d = "sim_ctx 7551 0x2000"
  let ?v = "(sim_world 7551 0x2000 \<lparr>si_signo = 29, si_code = 1, si_addr = 0\<rparr>)\<lparr>sim_rbc := 500000\<rparr>"
  have l: "handle_signal_loop sim_env (?c, ?w) = Some (?c, ?w)"
    by (rule sim_loop_out) simp
  have l': "handle_signal_loop sim_env (?d, ?v) = Some (?d, ?v)"
    by (rule sim_loop_out) simp
  have s: "signal_pending sim_env (status ?c) = 4" by (simp add: sim_defs)
  have s': "signal_pending sim_env (status ?d) = 29" by (simp add: sim_defs)
  have p: "0 < signal_pending sim_env (status ?c)" by (simp add: s)
  have p': "0 < signal_pending sim_env (status ?d)" by (simp add: s')
  note r = sim_handle_sigill
  have r': "handle_signal sim_env ?d ?v = Some (Inr (?d\<lparr>event := - 1026, child_sig := 0\<rparr>, ?v))"
    by (simp add: handle_signal_def l' s' signal_numbers) (simp add: sim_defs)
  have ns: "\<not> resolved_synthetic sim_env (signal_pending sim_env (status ?c)) ?c ?w"
    by (simp add: resolved_synthetic_def s signal_numbers)
  have nd: "\<not> resolved_sched sim_env (signal_pending sim_env (status ?c)) ?c ?w"
    by (simp add: resolved_sched_def s signal_numbers)
  have sd: "resolved_sched sim_env (signal_pending sim_env (status ?d)) ?d ?v"
    by (simp add: resolved_sched_def s' signal_numbers) (simp add: sim_defs)
  from handle_signal_child_sig [OF l p r] ns nd
  have a: "child_sig (?c\<lparr>child_sig := 4, event := - 132, status := 1407\<rparr>)
       = signal_pending sim_env (status ?c)"
    and b: "child_sig (?c\<lparr>child_sig := 4, event := - 132, status := 1407\<rparr>) \<noteq> 0"
    by blast+
  from handle_signal_child_sig [OF l' p' r'] sd
  have c: "child_sig (?d\<lparr>event := - 1026, child_sig := 0\<rparr>) = 0"
    by blast
  show ?thesis by (intro conjI l p r ns nd a b l' p' r' sd c)
qed

end
